theory Spec2Isabelle
  imports Complex_Main "HOL-Library.Sublist"
begin

section \<open>HealthyBites: the product and ingredient repositories\<close>

text \<open>
  A shallow embedding of the two model classes of the server, \<^verbatim>\<open>Ingredient\<close>
  (ingredientModel.ts, in \<^verbatim>\<open>src/unnamed/part_004\<close>) and \<^verbatim>\<open>Product\<close> (productModel.ts, in
  \<^verbatim>\<open>src/unnamed/part_003\<close>).
  Every static method becomes a function from the database state to a result and the
  database state after the call. A thrown \<^verbatim>\<open>Error\<close> is the left injection of the
  result; the state is returned on both branches, so what a failing call leaves behind
  is part of the model.

  Record fields carry a short prefix (\<open>r_\<close> rating, \<open>i_\<close> ingredient, \<open>p_\<close> product,
  \<open>s_\<close> size, \<open>f_\<close> and \<open>pf_\<close> filter options, \<open>u_\<close> updates, \<open>in_\<close> payload),
  because the source uses the same field names in several interfaces and HOL records
  share one name space.
\<close>

subsection \<open>Values\<close>

text \<open>
  \<^verbatim>\<open>Species\<close>, \<^verbatim>\<open>LifeStage\<close>, \<^verbatim>\<open>FoodType\<close> and \<^verbatim>\<open>Unit\<close> are the string-literal unions of
  productModel.ts. A JavaScript \<^verbatim>\<open>number\<close> is modelled as a real: the values reach the
  server as JSON, which has neither NaN nor the infinities. An optional parameter or
  field is an \<open>option\<close> (\<open>None\<close> is \<^verbatim>\<open>undefined\<close>); a value of type
  \<^verbatim>\<open>number | null\<close> is a \<open>real option\<close> (\<open>None\<close> is \<^verbatim>\<open>null\<close>), so an optional
  \<^verbatim>\<open>number | null\<close> parameter is a \<open>real option option\<close>.
\<close>

datatype Species = Cat | Dog

datatype LifeStage = Adult | Young | All

datatype FoodType = Dry | Wet

datatype Unit = Lb | Can

fun Species_string :: "Species \<Rightarrow> string" where
  "Species_string Cat = ''cat''"
| "Species_string Dog = ''dog''"

datatype error =
    AlreadyExists           \<comment> \<open>\<^verbatim>\<open>'Product already exists'\<close>, \<^verbatim>\<open>'Ingredient already exists'\<close>\<close>
  | NotFound                \<comment> \<open>\<^verbatim>\<open>'Product not found'\<close>, \<^verbatim>\<open>'One or both ingredients not found'\<close>\<close>
  | NoUpdatesProvided       \<comment> \<open>\<^verbatim>\<open>'No updates provided'\<close>\<close>
  | IncompleteSizeDetails   \<comment> \<open>\<^verbatim>\<open>'Incomplete size details'\<close>\<close>
  | ValidationError         \<comment> \<open>thrown by \<^verbatim>\<open>save()\<close> when the document fails the schema\<close>
  | SyntaxError             \<comment> \<open>thrown by \<^verbatim>\<open>new RegExp\<close> on an invalid pattern\<close>
  | PatternNotModelled      \<comment> \<open>not an error of the program: a pattern outside the modelled fragment\<close>

text \<open>\<^verbatim>\<open>x ?? null\<close>: \<^verbatim>\<open>undefined\<close> and \<^verbatim>\<open>null\<close> both give \<^verbatim>\<open>null\<close>.\<close>

definition nullish_null :: "'a option option \<Rightarrow> 'a option" where
  "nullish_null x = (case x of None \<Rightarrow> None | Some v \<Rightarrow> v)"

text \<open>\<^verbatim>\<open>xs ?? []\<close> for an optional array.\<close>

definition nullish_empty :: "'a list option \<Rightarrow> 'a list" where
  "nullish_empty x = (case x of None \<Rightarrow> [] | Some xs \<Rightarrow> xs)"

subsection \<open>Documents\<close>

record rating =
  r_species :: Species
  r_healthRating :: "real option"
  r_notes :: "string option"

record ingredient =
  i_name :: string
  i_ratings :: "rating list"

record size_entry =
  s_packaging :: string
  s_price :: real
  s_count :: real
  s_unit :: Unit
  s_links :: "string list"
  s_imageUrls :: "string list"

record feeding =
  minAge :: real
  maxAge :: real
  minWeight :: real
  maxWeight :: real
  minServing :: real
  maxServing :: real

record product =
  p_brand :: string
  p_flavor :: string
  p_species :: Species
  p_lifeStage :: LifeStage
  p_foodType :: FoodType
  p_ingredients :: "string list"
  p_sizes :: "size_entry list"
  p_feedingChart :: "feeding list"

subsection \<open>The document store\<close>

text \<open>
  A collection is the list of its documents in insertion order, each paired with its
  \<^verbatim>\<open>_id\<close>. An \<^verbatim>\<open>ObjectId\<close> is opaque, so it is a natural number, and the store hands
  out \<open>next_oid\<close> for a new document. The functions below are the calls the two
  classes make on a mongoose model. The identifiers of the rating and size
  sub-documents are left out: no function modelled here reads them.

  A call of \<^verbatim>\<open>Ingredient.push\<close> that is started and not awaited runs on while its
  caller goes on and returns. Such calls are kept in \<open>started\<close>, with their arguments,
  in the order in which they were started. The model does not say when a started call
  reads or writes the Ingredient collection, nor what it finds there: the collections
  of a state are as the awaited calls left them.
\<close>

record push_entry =
  e_name :: string
  e_species :: Species
  e_healthRating :: "real option option"
  e_notes :: "string option option"

type_synonym oid = nat

type_synonym 'a collection = "(oid \<times> 'a) list"

record db =
  ProductModel :: "product collection"
  IngredientModel :: "ingredient collection"
  next_oid :: oid
  started :: "push_entry list"

type_synonym 'a result = "(error + 'a) \<times> db"

definition Model_findById :: "oid \<Rightarrow> 'a collection \<Rightarrow> (oid \<times> 'a) option" where
  "Model_findById i c = List.find (\<lambda>d. fst d = i) c"

definition Model_findOne :: "('a \<Rightarrow> bool) \<Rightarrow> 'a collection \<Rightarrow> (oid \<times> 'a) option" where
  "Model_findOne P c = List.find (\<lambda>d. P (snd d)) c"

definition Model_find :: "('a \<Rightarrow> bool) \<Rightarrow> 'a collection \<Rightarrow> 'a collection" where
  "Model_find P c = filter (\<lambda>d. P (snd d)) c"

text \<open>\<^verbatim>\<open>doc.save()\<close> of a document that was loaded from the collection, and
  \<^verbatim>\<open>findByIdAndUpdate\<close>: the stored document with that \<^verbatim>\<open>_id\<close> gets the new content.\<close>

fun Model_save :: "oid \<Rightarrow> 'a \<Rightarrow> 'a collection \<Rightarrow> 'a collection" where
  "Model_save i v [] = []"
| "Model_save i v (d # ds) = (if fst d = i then (i, v) # ds else d # Model_save i v ds)"

fun Model_findByIdAndDelete :: "oid \<Rightarrow> 'a collection \<Rightarrow> 'a collection" where
  "Model_findByIdAndDelete i [] = []"
| "Model_findByIdAndDelete i (d # ds) = (if fst d = i then ds else d # Model_findByIdAndDelete i ds)"

text \<open>What \<^verbatim>\<open>find\<close> of either class returns: one document or \<^verbatim>\<open>null\<close> when an id was
  given, an array otherwise.\<close>

datatype 'a found = Single "(oid \<times> 'a) option" | Many "(oid \<times> 'a) list"

text \<open>The store keeps \<^verbatim>\<open>_id\<close> unique within a collection and never hands out an id twice.\<close>

definition wf_collection :: "oid \<Rightarrow> 'a collection \<Rightarrow> bool" where
  "wf_collection n c = (distinct (map fst c) \<and> list_all (\<lambda>d. fst d < n) c)"

definition wf_db :: "db \<Rightarrow> bool" where
  "wf_db s = (wf_collection (next_oid s) (ProductModel s) \<and> wf_collection (next_oid s) (IngredientModel s))"

subsection \<open>Regular expressions\<close>

text \<open>
  \<^verbatim>\<open>Ingredient.find\<close> turns the name filter into \<^verbatim>\<open>new RegExp(name, 'i')\<close> and hands it to
  the store, which looks for a match anywhere in the stored name. The model covers the
  patterns made of ordinary characters and the dot: an ordinary character matches
  itself and, if it is a letter, its other case; the dot matches every character but
  the line feed. A pattern that begins with a quantifier is refused by the constructor
  itself. Every other pattern gets the value \<open>PatternNotModelled\<close>, about which
  nothing is proved. Names are ASCII in the model.
\<close>

datatype pattern_item = PatternCharacter char | AnyCharacter

type_synonym regexp = "pattern_item list"

definition SyntaxCharacter :: "char \<Rightarrow> bool" where
  "SyntaxCharacter c = (c \<in> set (CHR 0x5C # ''^$.*+?()[]{}|''))"

definition Canonicalize :: "char \<Rightarrow> char" where
  "Canonicalize c =
     (case map_of (zip ''abcdefghijklmnopqrstuvwxyz'' ''ABCDEFGHIJKLMNOPQRSTUVWXYZ'') c of
        None \<Rightarrow> c
      | Some u \<Rightarrow> u)"

definition RegExp_i :: "string \<Rightarrow> error + regexp" where
  "RegExp_i p =
     (if p \<noteq> [] \<and> hd p \<in> set ''*+?'' then Inl SyntaxError
      else if list_all (\<lambda>c. c = CHR ''.'' \<or> \<not> SyntaxCharacter c) p
           then Inr (map (\<lambda>c. if c = CHR ''.'' then AnyCharacter else PatternCharacter c) p)
      else Inl PatternNotModelled)"

fun item_matches :: "pattern_item \<Rightarrow> char \<Rightarrow> bool" where
  "item_matches (PatternCharacter p) c = (Canonicalize p = Canonicalize c)"
| "item_matches AnyCharacter c = (c \<noteq> CHR 0x0A)"

fun matches_here :: "regexp \<Rightarrow> string \<Rightarrow> bool" where
  "matches_here [] cs = True"
| "matches_here (p # ps) [] = False"
| "matches_here (p # ps) (c # cs) = (item_matches p c \<and> matches_here ps cs)"

fun regexp_test :: "regexp \<Rightarrow> string \<Rightarrow> bool" where
  "regexp_test re [] = matches_here re []"
| "regexp_test re (c # cs) = (matches_here re (c # cs) \<or> regexp_test re cs)"

subsection \<open>The Ingredient class (ingredientModel.ts)\<close>

text \<open>\<^verbatim>\<open>FilterOptions\<close> of \<^verbatim>\<open>Ingredient.find\<close>. The \<^verbatim>\<open>id\<close> of a filter is the string of an
  \<^verbatim>\<open>ObjectId\<close>, which is never empty, so \<^verbatim>\<open>if (id)\<close> holds exactly when an id is given.\<close>

record ingredient_filter =
  f_id :: "oid option"
  f_name :: "string option"
  f_species :: "string option"
  f_rating :: "real option option"
  f_minRating :: "real option"
  f_maxRating :: "real option"

text \<open>The query object that \<^verbatim>\<open>find\<close> builds. It has three keys, \<^verbatim>\<open>name\<close>,
  \<^verbatim>\<open>'ratings.species'\<close> and \<^verbatim>\<open>'ratings.healthRating'\<close>; an assignment to a key that is
  already set replaces its value.\<close>

datatype rating_condition =
    EqNull          \<comment> \<open>\<^verbatim>\<open>{ $eq: null }\<close>\<close>
  | EqNumber real   \<comment> \<open>a number\<close>
  | Gte real        \<comment> \<open>\<^verbatim>\<open>{ $gte: minRating }\<close>\<close>
  | Lte real        \<comment> \<open>\<^verbatim>\<open>{ $lte: maxRating }\<close>\<close>

record ingredient_query =
  q_name :: "regexp option"
  q_ratings_species :: "string option"
  q_ratings_healthRating :: "rating_condition option"

definition empty_ingredient_query :: ingredient_query where
  "empty_ingredient_query =
     \<lparr>q_name = None, q_ratings_species = None, q_ratings_healthRating = None\<rparr>"

text \<open>The store's reading of a condition on \<^verbatim>\<open>'ratings.healthRating'\<close>: some element of
  the array satisfies it. A comparison with a number is never satisfied by \<^verbatim>\<open>null\<close>.\<close>

fun healthRating_satisfies :: "rating_condition \<Rightarrow> real option \<Rightarrow> bool" where
  "healthRating_satisfies EqNull h = (h = None)"
| "healthRating_satisfies (EqNumber x) h = (h = Some x)"
| "healthRating_satisfies (Gte x) h = (case h of None \<Rightarrow> False | Some r \<Rightarrow> x \<le> r)"
| "healthRating_satisfies (Lte x) h = (case h of None \<Rightarrow> False | Some r \<Rightarrow> r \<le> x)"

definition ingredient_matches :: "ingredient_query \<Rightarrow> ingredient \<Rightarrow> bool" where
  "ingredient_matches q ing =
     ((case q_name q of None \<Rightarrow> True | Some re \<Rightarrow> regexp_test re (i_name ing)) \<and>
      (case q_ratings_species q of
         None \<Rightarrow> True
       | Some sp \<Rightarrow> list_ex (\<lambda>r. Species_string (r_species r) = sp) (i_ratings ing)) \<and>
      (case q_ratings_healthRating q of
         None \<Rightarrow> True
       | Some c \<Rightarrow> list_ex (\<lambda>r. healthRating_satisfies c (r_healthRating r)) (i_ratings ing)))"

text \<open>The statements of \<^verbatim>\<open>find\<close> that fill the query, in the order of the source.\<close>

definition Ingredient_find_query :: "ingredient_filter \<Rightarrow> error + ingredient_query" where
  "Ingredient_find_query f =
     (case (case f_name f of None \<Rightarrow> Inr None | Some n \<Rightarrow> map_sum id Some (RegExp_i n)) of
        Inl e \<Rightarrow> Inl e
      | Inr re \<Rightarrow>
          (let query = empty_ingredient_query;
               query = (if re \<noteq> None then query\<lparr>q_name := re\<rparr> else query);
               query = (if f_species f \<noteq> None
                        then query\<lparr>q_ratings_species := f_species f\<rparr> else query);
               query =
                 (case f_rating f of
                    Some None \<Rightarrow> query\<lparr>q_ratings_healthRating := Some EqNull\<rparr>
                  | Some (Some r) \<Rightarrow> query\<lparr>q_ratings_healthRating := Some (EqNumber r)\<rparr>
                  | None \<Rightarrow>
                      (let query = (case f_minRating f of
                                      None \<Rightarrow> query
                                    | Some m \<Rightarrow> query\<lparr>q_ratings_healthRating := Some (Gte m)\<rparr>);
                           query = (case f_maxRating f of
                                      None \<Rightarrow> query
                                    | Some m \<Rightarrow> query\<lparr>q_ratings_healthRating := Some (Lte m)\<rparr>)
                       in query))
           in Inr query))"

definition Ingredient_find :: "ingredient_filter \<Rightarrow> db \<Rightarrow> ingredient found result" where
  "Ingredient_find f s =
     (case f_id f of
        Some i \<Rightarrow> (Inr (Single (Model_findById i (IngredientModel s))), s)
      | None \<Rightarrow>
          (case Ingredient_find_query f of
             Inl e \<Rightarrow> (Inl e, s)
           | Inr query \<Rightarrow> (Inr (Many (Model_find (ingredient_matches query) (IngredientModel s))), s)))"

text \<open>
  \<^verbatim>\<open>save()\<close> validates the document against the schema before it writes, a new
  document as well as one that was loaded from the collection: the required paths are
  validated on every save. The Ingredient schema declares
  \<^verbatim>\<open>name: { type: String, required: true }\<close>, and the required check of a string
  fails on the empty string. The other checks of the schema (\<^verbatim>\<open>species\<close> required and
  one of \<^verbatim>\<open>'cat'\<close>, \<^verbatim>\<open>'dog'\<close>) hold for every value of the type \<open>rating\<close>. When the
  validation fails, \<^verbatim>\<open>save()\<close> throws and writes nothing. A stored ingredient can have
  the empty name: \<^verbatim>\<open>Ingredient.update\<close> writes with \<^verbatim>\<open>findByIdAndUpdate\<close>, which does not
  validate.
\<close>

definition ingredient_validates :: "ingredient \<Rightarrow> bool" where
  "ingredient_validates ing = (i_name ing \<noteq> [])"

text \<open>\<^verbatim>\<open>new IngredientModel({...}).save()\<close>: a new document with a fresh \<^verbatim>\<open>_id\<close>.\<close>

definition IngredientModel_create :: "ingredient \<Rightarrow> db \<Rightarrow> (oid \<times> ingredient) result" where
  "IngredientModel_create ing s =
     (if ingredient_validates ing
      then (Inr (next_oid s, ing),
            s\<lparr>IngredientModel := IngredientModel s @ [(next_oid s, ing)],
              next_oid := Suc (next_oid s)\<rparr>)
      else (Inl ValidationError, s))"

text \<open>\<^verbatim>\<open>ingredient.save()\<close> of a document that was loaded from the collection.\<close>

definition IngredientModel_save :: "oid \<Rightarrow> ingredient \<Rightarrow> db \<Rightarrow> (oid \<times> ingredient) result" where
  "IngredientModel_save i ing s =
     (if ingredient_validates ing
      then (Inr (i, ing), s\<lparr>IngredientModel := Model_save i ing (IngredientModel s)\<rparr>)
      else (Inl ValidationError, s))"

text \<open>\<^verbatim>\<open>Object.assign(existingRating, update)\<close>, where \<^verbatim>\<open>update\<close> holds the fields that are
  not \<^verbatim>\<open>undefined\<close>; \<^verbatim>\<open>existingRating\<close> is the first rating of the species, changed in
  place.\<close>

definition assign_rating :: "real option option \<Rightarrow> string option option \<Rightarrow> rating \<Rightarrow> rating" where
  "assign_rating healthRating notes r =
     (let r = (case healthRating of None \<Rightarrow> r | Some h \<Rightarrow> r\<lparr>r_healthRating := h\<rparr>);
          r = (case notes of None \<Rightarrow> r | Some n \<Rightarrow> r\<lparr>r_notes := n\<rparr>)
      in r)"

fun update_first :: "('a \<Rightarrow> bool) \<Rightarrow> ('a \<Rightarrow> 'a) \<Rightarrow> 'a list \<Rightarrow> 'a list" where
  "update_first P g [] = []"
| "update_first P g (x # xs) = (if P x then g x # xs else x # update_first P g xs)"

definition Ingredient_push ::
  "string \<Rightarrow> Species \<Rightarrow> real option option \<Rightarrow> string option option \<Rightarrow> db
     \<Rightarrow> (oid \<times> ingredient) result" where
  "Ingredient_push name species healthRating notes s =
     (case Model_findOne (\<lambda>i. i_name i = name) (IngredientModel s) of
        None \<Rightarrow>
          IngredientModel_create
            \<lparr>i_name = name,
             i_ratings = [\<lparr>r_species = species,
                           r_healthRating = nullish_null healthRating,
                           r_notes = nullish_null notes\<rparr>]\<rparr> s
      | Some (i, ingredient) \<Rightarrow>
          (let ingredient' =
                 (case List.find (\<lambda>r. r_species r = species) (i_ratings ingredient) of
                    Some existingRating \<Rightarrow>
                      ingredient\<lparr>i_ratings :=
                        update_first (\<lambda>r. r_species r = species)
                          (assign_rating healthRating notes) (i_ratings ingredient)\<rparr>
                  | None \<Rightarrow>
                      ingredient\<lparr>i_ratings := i_ratings ingredient @
                        [\<lparr>r_species = species,
                          r_healthRating = nullish_null healthRating,
                          r_notes = nullish_null notes\<rparr>]\<rparr>)
           in IngredientModel_save i ingredient' s))"

text \<open>
  \<^verbatim>\<open>pushMany\<close> takes either an array of entries or \<^verbatim>\<open>{names, species}\<close>. It starts one
  \<^verbatim>\<open>push\<close> per element and returns the array of the promises; it awaits none of them
  (the \<^verbatim>\<open>await\<close> inside each callback is the callback's own). The calls are appended to
  \<open>started\<close>.
\<close>

datatype pushMany_argument = Entries "push_entry list" | Names "string list" Species

fun Ingredient_pushMany :: "pushMany_argument \<Rightarrow> db \<Rightarrow> db" where
  "Ingredient_pushMany (Entries ingredients) s = s\<lparr>started := started s @ ingredients\<rparr>"
| "Ingredient_pushMany (Names names species) s =
     s\<lparr>started := started s @
         map (\<lambda>name. \<lparr>e_name = name, e_species = species, e_healthRating = None,
                       e_notes = None\<rparr>) names\<rparr>"

text \<open>The loop of \<^verbatim>\<open>mergeDuplicates\<close>: \<^verbatim>\<open>primary.ratings\<close> grows while the ratings of the
  duplicate are visited.\<close>

definition merge_ratings :: "rating list \<Rightarrow> rating list \<Rightarrow> rating list" where
  "merge_ratings primary_ratings duplicate_ratings =
     foldl (\<lambda>prs dr. if list_ex (\<lambda>pr. r_species pr = r_species dr) prs then prs else prs @ [dr])
       primary_ratings duplicate_ratings"

definition Ingredient_mergeDuplicates :: "oid \<Rightarrow> oid \<Rightarrow> db \<Rightarrow> (oid \<times> ingredient) result" where
  "Ingredient_mergeDuplicates primaryId duplicateId s =
     (case (Model_findById primaryId (IngredientModel s),
            Model_findById duplicateId (IngredientModel s)) of
        (Some (pid, primary), Some (did, duplicate)) \<Rightarrow>
          (let primary' = primary\<lparr>i_ratings := merge_ratings (i_ratings primary) (i_ratings duplicate)\<rparr>
           in case IngredientModel_save primaryId primary' s of
                (Inl e, s') \<Rightarrow> (Inl e, s')
              | (Inr saved, s') \<Rightarrow>
                  (Inr saved,
                   s'\<lparr>IngredientModel :=
                        Model_findByIdAndDelete duplicateId (IngredientModel s')\<rparr>))
      | _ \<Rightarrow> (Inl NotFound, s))"

subsection \<open>The Product class (productModel.ts)\<close>

text \<open>
  The class is modelled from the revision that the router imports
  (\<^verbatim>\<open>src/unnamed/part_003\<close>: \<^verbatim>\<open>export default Product\<close>, field \<^verbatim>\<open>foodType\<close>,
  \<^verbatim>\<open>packaging\<close>). Where the earlier revision \<^verbatim>\<open>src/server/models/productModel.ts\<close> differs
  in a way that matters below, its function is modelled next to it.
\<close>

record product_filter =
  pf_id :: "oid option"
  pf_brand :: "string option"
  pf_flavor :: "string option"
  pf_species :: "Species option"
  pf_lifeStage :: "LifeStage option"
  pf_foodType :: "FoodType option"

text \<open>The query object of \<^verbatim>\<open>Product.find\<close>; \<^verbatim>\<open>lifeStage\<close> holds the list of an
  \<^verbatim>\<open>$in\<close> condition.\<close>

record product_query =
  pq_brand :: "string option"
  pq_flavor :: "string option"
  pq_species :: "Species option"
  pq_lifeStage :: "LifeStage list option"
  pq_foodType :: "FoodType option"

definition empty_product_query :: product_query where
  "empty_product_query =
     \<lparr>pq_brand = None, pq_flavor = None, pq_species = None, pq_lifeStage = None,
      pq_foodType = None\<rparr>"

definition product_matches :: "product_query \<Rightarrow> product \<Rightarrow> bool" where
  "product_matches q p =
     ((case pq_brand q of None \<Rightarrow> True | Some b \<Rightarrow> p_brand p = b) \<and>
      (case pq_flavor q of None \<Rightarrow> True | Some f \<Rightarrow> p_flavor p = f) \<and>
      (case pq_species q of None \<Rightarrow> True | Some sp \<Rightarrow> p_species p = sp) \<and>
      (case pq_lifeStage q of None \<Rightarrow> True | Some ls \<Rightarrow> p_lifeStage p \<in> set ls) \<and>
      (case pq_foodType q of None \<Rightarrow> True | Some ft \<Rightarrow> p_foodType p = ft))"

definition Product_find_query :: "product_filter \<Rightarrow> product_query" where
  "Product_find_query filters =
     (let query = empty_product_query;
          query = (if pf_brand filters \<noteq> None then query\<lparr>pq_brand := pf_brand filters\<rparr> else query);
          query = (if pf_flavor filters \<noteq> None then query\<lparr>pq_flavor := pf_flavor filters\<rparr> else query);
          query = (if pf_species filters \<noteq> None then query\<lparr>pq_species := pf_species filters\<rparr> else query);
          query = (case pf_lifeStage filters of
                     None \<Rightarrow> query
                   | Some lifeStage \<Rightarrow> query\<lparr>pq_lifeStage := Some [lifeStage, All]\<rparr>);
          query = (if pf_foodType filters \<noteq> None then query\<lparr>pq_foodType := pf_foodType filters\<rparr> else query)
      in query)"

text \<open>\<^verbatim>\<open>Product.find\<close> as in \<^verbatim>\<open>src/unnamed/part_003\<close>: the query is built and logged, and
  \<^verbatim>\<open>ProductModel.find\<close> is then called without an argument, which selects every
  document.\<close>

definition Product_find :: "product_filter \<Rightarrow> db \<Rightarrow> product found result" where
  "Product_find filters s =
     (case pf_id filters of
        Some i \<Rightarrow> (Inr (Single (Model_findById i (ProductModel s))), s)
      | None \<Rightarrow>
          (let query = Product_find_query filters
           in (Inr (Many (Model_find (product_matches empty_product_query) (ProductModel s))), s)))"

text \<open>\<^verbatim>\<open>Product.find\<close> as in \<^verbatim>\<open>src/server/models/productModel.ts\<close>, which passes the
  query: \<^verbatim>\<open>ProductModel.find(query)\<close>. The filter has the types of the current revision.\<close>

definition Product_find_productModel_ts :: "product_filter \<Rightarrow> db \<Rightarrow> product found result" where
  "Product_find_productModel_ts filters s =
     (case pf_id filters of
        Some i \<Rightarrow> (Inr (Single (Model_findById i (ProductModel s))), s)
      | None \<Rightarrow>
          (let query = Product_find_query filters
           in (Inr (Many (Model_find (product_matches query) (ProductModel s))), s)))"

text \<open>\<^verbatim>\<open>Product.add\<close>. The new document gets its \<^verbatim>\<open>_id\<close> when it is constructed, before
  \<^verbatim>\<open>pushMany\<close> is called; \<^verbatim>\<open>pushMany\<close> is not awaited, and the document is saved last.
  Its required fields are of the types \<open>Species\<close>, \<open>LifeStage\<close>, \<open>FoodType\<close> and
  \<open>Unit\<close>, so its validation cannot fail.\<close>

definition Product_add ::
  "string \<Rightarrow> string \<Rightarrow> Species \<Rightarrow> LifeStage \<Rightarrow> FoodType \<Rightarrow> string list \<Rightarrow> size_entry list
     \<Rightarrow> feeding list \<Rightarrow> db \<Rightarrow> (oid \<times> product) result" where
  "Product_add brand flavor species lifeStage foodType ingredients sizes feedingChart s =
     (case Model_findOne
             (\<lambda>p. p_brand p = brand \<and> p_flavor p = flavor \<and> p_species p = species \<and>
                  p_lifeStage p = lifeStage \<and> p_foodType p = foodType)
             (ProductModel s) of
        Some existingProduct \<Rightarrow> (Inl AlreadyExists, s)
      | None \<Rightarrow>
          (let newProduct =
                 (next_oid s,
                  \<lparr>p_brand = brand, p_flavor = flavor, p_species = species,
                   p_lifeStage = lifeStage, p_foodType = foodType, p_ingredients = ingredients,
                   p_sizes = sizes, p_feedingChart = feedingChart\<rparr>);
               s = s\<lparr>next_oid := Suc (next_oid s)\<rparr>;
               s = Ingredient_pushMany (Names ingredients species) s;
               s = s\<lparr>ProductModel := ProductModel s @ [newProduct]\<rparr>
           in (Inr newProduct, s)))"

text \<open>\<^verbatim>\<open>Partial<ProductEntry>\<close>, the argument of \<^verbatim>\<open>Product.update\<close>.\<close>

record product_updates =
  u_brand :: "string option"
  u_flavor :: "string option"
  u_species :: "Species option"
  u_lifeStage :: "LifeStage option"
  u_foodType :: "FoodType option"
  u_ingredients :: "string list option"
  u_sizes :: "size_entry list option"
  u_feedingChart :: "feeding list option"

definition empty_update :: product_updates where
  "empty_update =
     \<lparr>u_brand = None, u_flavor = None, u_species = None, u_lifeStage = None, u_foodType = None,
      u_ingredients = None, u_sizes = None, u_feedingChart = None\<rparr>"

text \<open>\<^verbatim>\<open>findByIdAndUpdate(id, update, { new: true })\<close> sets the keys of \<^verbatim>\<open>update\<close>.\<close>

definition set_fields :: "product_updates \<Rightarrow> product \<Rightarrow> product" where
  "set_fields update p =
     (let p = (case u_brand update of None \<Rightarrow> p | Some v \<Rightarrow> p\<lparr>p_brand := v\<rparr>);
          p = (case u_flavor update of None \<Rightarrow> p | Some v \<Rightarrow> p\<lparr>p_flavor := v\<rparr>);
          p = (case u_species update of None \<Rightarrow> p | Some v \<Rightarrow> p\<lparr>p_species := v\<rparr>);
          p = (case u_lifeStage update of None \<Rightarrow> p | Some v \<Rightarrow> p\<lparr>p_lifeStage := v\<rparr>);
          p = (case u_foodType update of None \<Rightarrow> p | Some v \<Rightarrow> p\<lparr>p_foodType := v\<rparr>);
          p = (case u_ingredients update of None \<Rightarrow> p | Some v \<Rightarrow> p\<lparr>p_ingredients := v\<rparr>);
          p = (case u_sizes update of None \<Rightarrow> p | Some v \<Rightarrow> p\<lparr>p_sizes := v\<rparr>);
          p = (case u_feedingChart update of None \<Rightarrow> p | Some v \<Rightarrow> p\<lparr>p_feedingChart := v\<rparr>)
      in p)"

text \<open>\<^verbatim>\<open>Product.update\<close> as in \<^verbatim>\<open>src/unnamed/part_003\<close>. Under
  \<^verbatim>\<open>if (ingredients !== undefined)\<close> the source sets \<^verbatim>\<open>update.ingredients\<close>; the comment
  \<^verbatim>\<open>// Push ingredients to the Ingredient collection, adding any missing ones.\<close> follows,
  and no statement follows the comment.\<close>

definition Product_update :: "oid \<Rightarrow> product_updates \<Rightarrow> db \<Rightarrow> (oid \<times> product) result" where
  "Product_update i updates s =
     (case Model_findById i (ProductModel s) of
        None \<Rightarrow> (Inl NotFound, s)
      | Some (pid, product) \<Rightarrow>
          (let update = empty_update;
               update = (if u_brand updates \<noteq> None then update\<lparr>u_brand := u_brand updates\<rparr> else update);
               update = (if u_flavor updates \<noteq> None then update\<lparr>u_flavor := u_flavor updates\<rparr> else update);
               update = (if u_species updates \<noteq> None then update\<lparr>u_species := u_species updates\<rparr> else update);
               update = (if u_lifeStage updates \<noteq> None then update\<lparr>u_lifeStage := u_lifeStage updates\<rparr> else update);
               update = (if u_foodType updates \<noteq> None then update\<lparr>u_foodType := u_foodType updates\<rparr> else update);
               update = (if u_ingredients updates \<noteq> None
                         then update\<lparr>u_ingredients := u_ingredients updates\<rparr> else update);
               update = (if u_sizes updates \<noteq> None then update\<lparr>u_sizes := u_sizes updates\<rparr> else update);
               update = (if u_feedingChart updates \<noteq> None
                         then update\<lparr>u_feedingChart := u_feedingChart updates\<rparr> else update)
           in if update = empty_update then (Inl NoUpdatesProvided, s)
              else (Inr (i, set_fields update product),
                    s\<lparr>ProductModel := Model_save i (set_fields update product) (ProductModel s)\<rparr>)))"

text \<open>The payload of \<^verbatim>\<open>Product.addSize\<close>. The declared type has every field, the
  function tests them, so each may be absent (\<open>None\<close>: \<^verbatim>\<open>undefined\<close> or \<^verbatim>\<open>null\<close>).\<close>

record size_details =
  in_packaging :: "string option"
  in_price :: "real option"
  in_count :: "real option"
  in_unit :: "Unit option"
  in_links :: "string list option"
  in_imageUrls :: "string list option"

text \<open>\<^verbatim>\<open>!x\<close> for a string, a number and a \<^verbatim>\<open>Unit\<close> (\<^verbatim>\<open>'lb'\<close> or \<^verbatim>\<open>'can'\<close>), each
  possibly absent.\<close>

definition not_string :: "string option \<Rightarrow> bool" where
  "not_string x = (case x of None \<Rightarrow> True | Some v \<Rightarrow> v = [])"

definition not_number :: "real option \<Rightarrow> bool" where
  "not_number x = (case x of None \<Rightarrow> True | Some v \<Rightarrow> v = 0)"

definition not_unit :: "Unit option \<Rightarrow> bool" where
  "not_unit x = (case x of None \<Rightarrow> True | Some v \<Rightarrow> False)"

definition Product_addSize :: "oid \<Rightarrow> size_details \<Rightarrow> db \<Rightarrow> (oid \<times> product) result" where
  "Product_addSize productId sizeDetails s =
     (case Model_findById productId (ProductModel s) of
        None \<Rightarrow> (Inl NotFound, s)
      | Some (pid, product) \<Rightarrow>
          if not_string (in_packaging sizeDetails) \<or> not_number (in_price sizeDetails) \<or>
             not_number (in_count sizeDetails) \<or> not_unit (in_unit sizeDetails)
          then (Inl IncompleteSizeDetails, s)
          else
            (let product' = product\<lparr>p_sizes := p_sizes product @
                   [\<lparr>s_packaging = the (in_packaging sizeDetails), s_price = the (in_price sizeDetails),
                     s_count = the (in_count sizeDetails), s_unit = the (in_unit sizeDetails),
                     s_links = nullish_empty (in_links sizeDetails),
                     s_imageUrls = nullish_empty (in_imageUrls sizeDetails)\<rparr>]\<rparr>
             in (Inr (productId, product'),
                 s\<lparr>ProductModel := Model_save productId product' (ProductModel s)\<rparr>)))"

subsection \<open>Notions of the specification\<close>

text \<open>
  Notions that the claims use and the code does not name. The natural key of a product
  is its five-field tuple. A name contains a filter string case-insensitively when the
  filter, with letters folded, is a contiguous part of the name, with letters folded.
\<close>

definition natural_key :: "product \<Rightarrow> string \<times> string \<times> Species \<times> LifeStage \<times> FoodType" where
  "natural_key p = (p_brand p, p_flavor p, p_species p, p_lifeStage p, p_foodType p)"

text \<open>The first rating of each species in a list of ratings, in the order of the list.\<close>

fun first_rating_per_species :: "rating list \<Rightarrow> rating list" where
  "first_rating_per_species [] = []"
| "first_rating_per_species (r # rs) =
     r # first_rating_per_species (filter (\<lambda>x. r_species x \<noteq> r_species r) rs)"

definition contains_ignoring_case :: "string \<Rightarrow> string \<Rightarrow> bool" where
  "contains_ignoring_case needle hay = sublist (map Canonicalize needle) (map Canonicalize hay)"

section \<open>Properties\<close>

subsection \<open>The document store\<close>

lemma Model_findById_Some: "Model_findById i c = Some d \<Longrightarrow> fst d = i \<and> d \<in> set c"
  by (auto simp: Model_findById_def find_Some_iff in_set_conv_nth)

lemma Model_findById_None: "(Model_findById i c = None) = (i \<notin> fst ` set c)"
  by (force simp: Model_findById_def find_None_iff)

lemma Model_save_same: "Model_findById i c = Some (i, v) \<Longrightarrow> Model_save i v c = c"
  by (induction c) (auto simp: Model_findById_def split: if_splits)

lemma Model_save_append_new:
  "i \<notin> fst ` set c \<Longrightarrow> Model_save i v (c @ [(i, w)]) = c @ [(i, v)]"
  by (induction c) auto

lemma map_fst_Model_save: "map fst (Model_save i v c) = map fst c"
  by (induction c) auto

lemma Model_findById_save:
  "Model_findById j (Model_save i v c) =
     (if j = i then (if i \<in> fst ` set c then Some (i, v) else None) else Model_findById j c)"
  by (induction c) (force simp: Model_findById_def)+

lemma Model_findById_delete:
  "distinct (map fst c) \<Longrightarrow>
   Model_findById j (Model_findByIdAndDelete i c) = (if j = i then None else Model_findById j c)"
proof (induction c)
  case Nil
  then show ?case by (simp add: Model_findById_def)
next
  case (Cons d ds)
  have absent: "fst d \<notin> fst ` set ds" using Cons.prems by auto
  show ?case
  proof (cases "fst d = i")
    case True
    then have "Model_findById i ds = None" using absent by (simp add: Model_findById_None)
    with True show ?thesis by (auto simp: Model_findById_def)
  next
    case False
    with Cons show ?thesis by (auto simp: Model_findById_def)
  qed
qed

lemma Model_findOne_append_new:
  "Model_findOne P c = None \<Longrightarrow> P v \<Longrightarrow> Model_findOne P (c @ [(i, v)]) = Some (i, v)"
  by (induction c) (auto simp: Model_findOne_def)

lemma Model_findOne_None_find:
  "Model_findOne P c = None \<Longrightarrow> Model_find P c = []"
  by (auto simp: Model_findOne_def Model_find_def find_None_iff filter_empty_conv)

lemma wf_collection_fresh: "wf_collection n c \<Longrightarrow> n \<notin> fst ` set c"
  by (auto simp: wf_collection_def list_all_iff)

subsection \<open>Ingredient.push\<close>

lemma assign_rating_fields:
  "assign_rating h n \<lparr>r_species = sp, r_healthRating = h0, r_notes = n0\<rparr> =
     \<lparr>r_species = sp,
      r_healthRating = (case h of None \<Rightarrow> h0 | Some v \<Rightarrow> v),
      r_notes = (case n of None \<Rightarrow> n0 | Some v \<Rightarrow> v)\<rparr>"
  by (simp add: assign_rating_def split: option.splits)

text \<open>A push of a name that no stored ingredient has: the ingredient is created when the
  name is not empty, and the call throws and writes nothing when it is.\<close>

lemma Ingredient_push_new:
  assumes "Model_findOne (\<lambda>i. i_name i = name) (IngredientModel s) = None"
    and "name \<noteq> []"
  shows "Ingredient_push name species healthRating notes s =
           (Inr (next_oid s, \<lparr>i_name = name,
              i_ratings = [\<lparr>r_species = species, r_healthRating = nullish_null healthRating,
                            r_notes = nullish_null notes\<rparr>]\<rparr>),
            s\<lparr>IngredientModel := IngredientModel s @
                [(next_oid s, \<lparr>i_name = name,
                   i_ratings = [\<lparr>r_species = species, r_healthRating = nullish_null healthRating,
                                 r_notes = nullish_null notes\<rparr>]\<rparr>)],
              next_oid := Suc (next_oid s)\<rparr>)"
  using assms
  by (simp add: Ingredient_push_def IngredientModel_create_def ingredient_validates_def)

lemma Ingredient_push_empty_name:
  assumes "Model_findOne (\<lambda>i. i_name i = []) (IngredientModel s) = None"
  shows "Ingredient_push [] species healthRating notes s = (Inl ValidationError, s)"
  using assms
  by (simp add: Ingredient_push_def IngredientModel_create_def ingredient_validates_def)

text \<open>A push of a name whose only ingredient is the last document of the collection and
  has one rating, of the species pushed: the fields that are given are assigned to
  that rating.\<close>

lemma Ingredient_push_single_rating:
  assumes fresh: "n \<notin> fst ` set c"
    and none: "Model_findOne (\<lambda>i. i_name i = name) c = None"
    and name: "name \<noteq> []"
    and store: "IngredientModel s = c @
        [(n, \<lparr>i_name = name,
              i_ratings = [\<lparr>r_species = species, r_healthRating = h0, r_notes = n0\<rparr>]\<rparr>)]"
  shows "Ingredient_push name species h nt s =
           (Inr (n, \<lparr>i_name = name,
              i_ratings = [\<lparr>r_species = species,
                            r_healthRating = (case h of None \<Rightarrow> h0 | Some v \<Rightarrow> v),
                            r_notes = (case nt of None \<Rightarrow> n0 | Some v \<Rightarrow> v)\<rparr>]\<rparr>),
            s\<lparr>IngredientModel := c @
                [(n, \<lparr>i_name = name,
                   i_ratings = [\<lparr>r_species = species,
                                 r_healthRating = (case h of None \<Rightarrow> h0 | Some v \<Rightarrow> v),
                                 r_notes = (case nt of None \<Rightarrow> n0 | Some v \<Rightarrow> v)\<rparr>]\<rparr>)]\<rparr>)"
proof -
  have found: "Model_findOne (\<lambda>i. i_name i = name) (IngredientModel s) =
      Some (n, \<lparr>i_name = name,
              i_ratings = [\<lparr>r_species = species, r_healthRating = h0, r_notes = n0\<rparr>]\<rparr>)"
    using none store by (simp add: Model_findOne_append_new)
  show ?thesis
    using found fresh name store
    by (simp add: Ingredient_push_def IngredientModel_save_def ingredient_validates_def
        Model_save_append_new assign_rating_fields Let_def)
qed

text \<open>
  Claim C2, as amended. \<^verbatim>\<open>push\<close> is an idempotent upsert for a name that is not empty.
  From a well-formed database with no ingredient of that name, \<^verbatim>\<open>push(name, species)\<close>
  creates the ingredient with one rating for the species, whose health rating and
  notes are \<^verbatim>\<open>null\<close>, and returns it. A second \<^verbatim>\<open>push(name, species)\<close> returns the same
  document and leaves the database as it is, so exactly one ingredient has that name.
  A further \<^verbatim>\<open>push(name, species, healthRating, notes)\<close> assigns the fields that are
  given to that one rating: the ingredient still is the only one of its name and still
  has one rating. One more push assigns the fields it is given and keeps the others.
  No call fails.
\<close>

theorem Ingredient_push_idempotent_upsert:
  assumes wf: "wf_db s"
    and new: "Model_findOne (\<lambda>i. i_name i = name) (IngredientModel s) = None"
    and name: "name \<noteq> []"
    and s1: "s1 = s\<lparr>IngredientModel := IngredientModel s @
        [(next_oid s, \<lparr>i_name = name,
            i_ratings = [\<lparr>r_species = species, r_healthRating = None, r_notes = None\<rparr>]\<rparr>)],
        next_oid := Suc (next_oid s)\<rparr>"
    and s3: "s3 = s\<lparr>IngredientModel := IngredientModel s @
        [(next_oid s, \<lparr>i_name = name,
            i_ratings = [\<lparr>r_species = species, r_healthRating = nullish_null healthRating,
                          r_notes = nullish_null notes\<rparr>]\<rparr>)],
        next_oid := Suc (next_oid s)\<rparr>"
    and s4: "s4 = s\<lparr>IngredientModel := IngredientModel s @
        [(next_oid s, \<lparr>i_name = name,
            i_ratings = [\<lparr>r_species = species,
               r_healthRating = (case healthRating' of None \<Rightarrow> nullish_null healthRating
                                 | Some v \<Rightarrow> v),
               r_notes = (case notes' of None \<Rightarrow> nullish_null notes | Some v \<Rightarrow> v)\<rparr>]\<rparr>)],
        next_oid := Suc (next_oid s)\<rparr>"
  shows "Ingredient_push name species None None s =
           (Inr (next_oid s, \<lparr>i_name = name,
              i_ratings = [\<lparr>r_species = species, r_healthRating = None, r_notes = None\<rparr>]\<rparr>), s1) \<and>
         Ingredient_push name species None None s1 =
           (Inr (next_oid s, \<lparr>i_name = name,
              i_ratings = [\<lparr>r_species = species, r_healthRating = None, r_notes = None\<rparr>]\<rparr>), s1) \<and>
         Model_find (\<lambda>i. i_name i = name) (IngredientModel s1) =
           [(next_oid s, \<lparr>i_name = name,
              i_ratings = [\<lparr>r_species = species, r_healthRating = None, r_notes = None\<rparr>]\<rparr>)] \<and>
         Ingredient_push name species healthRating notes s1 =
           (Inr (next_oid s, \<lparr>i_name = name,
              i_ratings = [\<lparr>r_species = species, r_healthRating = nullish_null healthRating,
                            r_notes = nullish_null notes\<rparr>]\<rparr>), s3) \<and>
         Model_find (\<lambda>i. i_name i = name) (IngredientModel s3) =
           [(next_oid s, \<lparr>i_name = name,
              i_ratings = [\<lparr>r_species = species, r_healthRating = nullish_null healthRating,
                            r_notes = nullish_null notes\<rparr>]\<rparr>)] \<and>
         Ingredient_push name species healthRating' notes' s3 =
           (Inr (next_oid s, \<lparr>i_name = name,
              i_ratings = [\<lparr>r_species = species,
                 r_healthRating = (case healthRating' of None \<Rightarrow> nullish_null healthRating
                                   | Some v \<Rightarrow> v),
                 r_notes = (case notes' of None \<Rightarrow> nullish_null notes | Some v \<Rightarrow> v)\<rparr>]\<rparr>), s4)"
proof -
  let ?c = "IngredientModel s"
  have fresh: "next_oid s \<notin> fst ` set ?c"
    using wf by (simp add: wf_db_def wf_collection_fresh)
  have none: "Model_find (\<lambda>i. i_name i = name) ?c = []"
    using new by (rule Model_findOne_None_find)
  have first: "Ingredient_push name species None None s =
      (Inr (next_oid s, \<lparr>i_name = name,
         i_ratings = [\<lparr>r_species = species, r_healthRating = None, r_notes = None\<rparr>]\<rparr>), s1)"
    using Ingredient_push_new [OF new name, of species None None] s1
    by (simp add: nullish_null_def)
  have c1: "IngredientModel s1 = ?c @
      [(next_oid s, \<lparr>i_name = name,
         i_ratings = [\<lparr>r_species = species, r_healthRating = None, r_notes = None\<rparr>]\<rparr>)]"
    using s1 by simp
  have c3: "IngredientModel s3 = ?c @
      [(next_oid s, \<lparr>i_name = name,
         i_ratings = [\<lparr>r_species = species, r_healthRating = nullish_null healthRating,
                       r_notes = nullish_null notes\<rparr>]\<rparr>)]"
    using s3 by simp
  have second: "Ingredient_push name species None None s1 =
      (Inr (next_oid s, \<lparr>i_name = name,
         i_ratings = [\<lparr>r_species = species, r_healthRating = None, r_notes = None\<rparr>]\<rparr>), s1)"
    using Ingredient_push_single_rating [OF fresh new name c1, of None None] s1 by simp
  have third: "Ingredient_push name species healthRating notes s1 =
      (Inr (next_oid s, \<lparr>i_name = name,
              i_ratings = [\<lparr>r_species = species, r_healthRating = nullish_null healthRating,
                            r_notes = nullish_null notes\<rparr>]\<rparr>), s3)"
    using Ingredient_push_single_rating [OF fresh new name c1, of healthRating "notes"] s1 s3
    by (simp add: nullish_null_def split: option.splits)
  have fourth: "Ingredient_push name species healthRating' notes' s3 =
      (Inr (next_oid s, \<lparr>i_name = name,
         i_ratings = [\<lparr>r_species = species,
            r_healthRating = (case healthRating' of None \<Rightarrow> nullish_null healthRating
                              | Some v \<Rightarrow> v),
            r_notes = (case notes' of None \<Rightarrow> nullish_null notes | Some v \<Rightarrow> v)\<rparr>]\<rparr>), s4)"
    using Ingredient_push_single_rating [OF fresh new name c3, of healthRating' notes'] s3 s4
    by simp
  have one1: "Model_find (\<lambda>i. i_name i = name) (IngredientModel s1) =
      [(next_oid s, \<lparr>i_name = name,
         i_ratings = [\<lparr>r_species = species, r_healthRating = None, r_notes = None\<rparr>]\<rparr>)]"
    using none s1 by (simp add: Model_find_def)
  have one3: "Model_find (\<lambda>i. i_name i = name) (IngredientModel s3) =
      [(next_oid s, \<lparr>i_name = name,
              i_ratings = [\<lparr>r_species = species, r_healthRating = nullish_null healthRating,
                            r_notes = nullish_null notes\<rparr>]\<rparr>)]"
    using none s3 by (simp add: Model_find_def)
  show ?thesis using first second third fourth one1 one3 by simp
qed

theorem Ingredient_push_idempotent_upsert_witness:
  "wf_db \<lparr>ProductModel = [], IngredientModel = [], next_oid = 0, started = []\<rparr> \<and>
   ''Chicken'' \<noteq> [] \<and>
   Ingredient_push ''Chicken'' Cat None None
     \<lparr>ProductModel = [], IngredientModel = [], next_oid = 0, started = []\<rparr> =
     (Inr (0, \<lparr>i_name = ''Chicken'',
             i_ratings = [\<lparr>r_species = Cat, r_healthRating = None, r_notes = None\<rparr>]\<rparr>),
      \<lparr>ProductModel = [],
       IngredientModel =
         [(0, \<lparr>i_name = ''Chicken'',
               i_ratings = [\<lparr>r_species = Cat, r_healthRating = None, r_notes = None\<rparr>]\<rparr>)],
       next_oid = 1, started = []\<rparr>) \<and>
   Ingredient_push ''Chicken'' Cat None None
     \<lparr>ProductModel = [],
      IngredientModel =
        [(0, \<lparr>i_name = ''Chicken'',
              i_ratings = [\<lparr>r_species = Cat, r_healthRating = None, r_notes = None\<rparr>]\<rparr>)],
      next_oid = 1, started = []\<rparr> =
     (Inr (0, \<lparr>i_name = ''Chicken'',
             i_ratings = [\<lparr>r_species = Cat, r_healthRating = None, r_notes = None\<rparr>]\<rparr>),
      \<lparr>ProductModel = [],
       IngredientModel =
         [(0, \<lparr>i_name = ''Chicken'',
               i_ratings = [\<lparr>r_species = Cat, r_healthRating = None, r_notes = None\<rparr>]\<rparr>)],
       next_oid = 1, started = []\<rparr>) \<and>
   Ingredient_push ''Chicken'' Cat (Some (Some 5)) (Some (Some ''good''))
     \<lparr>ProductModel = [],
      IngredientModel =
        [(0, \<lparr>i_name = ''Chicken'',
              i_ratings = [\<lparr>r_species = Cat, r_healthRating = None, r_notes = None\<rparr>]\<rparr>)],
      next_oid = 1, started = []\<rparr> =
     (Inr (0, \<lparr>i_name = ''Chicken'',
             i_ratings = [\<lparr>r_species = Cat, r_healthRating = Some 5, r_notes = Some ''good''\<rparr>]\<rparr>),
      \<lparr>ProductModel = [],
       IngredientModel =
         [(0, \<lparr>i_name = ''Chicken'',
               i_ratings = [\<lparr>r_species = Cat, r_healthRating = Some 5, r_notes = Some ''good''\<rparr>]\<rparr>)],
       next_oid = 1, started = []\<rparr>) \<and>
   Ingredient_push ''Chicken'' Cat (Some (Some 7)) None
     \<lparr>ProductModel = [],
      IngredientModel =
        [(0, \<lparr>i_name = ''Chicken'',
              i_ratings = [\<lparr>r_species = Cat, r_healthRating = Some 5, r_notes = Some ''good''\<rparr>]\<rparr>)],
      next_oid = 1, started = []\<rparr> =
     (Inr (0, \<lparr>i_name = ''Chicken'',
             i_ratings = [\<lparr>r_species = Cat, r_healthRating = Some 7, r_notes = Some ''good''\<rparr>]\<rparr>),
      \<lparr>ProductModel = [],
       IngredientModel =
         [(0, \<lparr>i_name = ''Chicken'',
               i_ratings = [\<lparr>r_species = Cat, r_healthRating = Some 7, r_notes = Some ''good''\<rparr>]\<rparr>)],
       next_oid = 1, started = []\<rparr>)"
proof -
  let ?s = "\<lparr>ProductModel = [], IngredientModel = [], next_oid = 0, started = []\<rparr>"
  have wf: "wf_db ?s" by (simp add: wf_db_def wf_collection_def)
  have new: "Model_findOne (\<lambda>i. i_name i = ''Chicken'') (IngredientModel ?s) = None"
    by (simp add: Model_findOne_def)
  have name: "''Chicken'' \<noteq> []" by simp
  show ?thesis
    using Ingredient_push_idempotent_upsert
      [OF wf new name refl refl refl,
        of Cat "Some (Some 5)" "Some (Some ''good'')" "Some (Some 7)" None] wf
    by (simp add: nullish_null_def)
qed

text \<open>
  The claim as stated, for every name, fails at the empty name: the new document does
  not pass the validation of \<^verbatim>\<open>save()\<close>, so the call throws and no ingredient is stored,
  the first time and every time after.
\<close>

theorem Ingredient_push_empty_name_counterexample:
  "Ingredient_push [] Cat None None
     \<lparr>ProductModel = [], IngredientModel = [], next_oid = 0, started = []\<rparr> =
   (Inl ValidationError,
    \<lparr>ProductModel = [], IngredientModel = [], next_oid = 0, started = []\<rparr>)"
  by (simp add: Ingredient_push_def Model_findOne_def IngredientModel_create_def
      ingredient_validates_def)

subsection \<open>Ingredient.mergeDuplicates\<close>

lemma merge_ratings_Nil: "merge_ratings ps [] = ps"
  by (simp add: merge_ratings_def)

lemma merge_ratings_Cons:
  "merge_ratings ps (d # ds) =
     merge_ratings (if list_ex (\<lambda>pr. r_species pr = r_species d) ps then ps else ps @ [d]) ds"
  by (simp add: merge_ratings_def)

lemma merge_ratings_rated:
  "list_all (\<lambda>d. list_ex (\<lambda>pr. r_species pr = r_species d) ps) ds \<Longrightarrow> merge_ratings ps ds = ps"
  by (induction ds) (auto simp: merge_ratings_Nil merge_ratings_Cons)

lemma merge_ratings_self: "merge_ratings rs rs = rs"
  by (rule merge_ratings_rated) (auto simp: list_all_iff list_ex_iff)

text \<open>Once a species is rated on the primary, the further ratings of that species are
  passed over.\<close>

lemma merge_ratings_skip:
  "list_ex (\<lambda>pr. r_species pr = sp) ps \<Longrightarrow>
   merge_ratings ps (filter (\<lambda>x. r_species x \<noteq> sp) ds) = merge_ratings ps ds"
proof (induction ds arbitrary: ps)
  case Nil
  then show ?case by simp
next
  case (Cons d ds)
  show ?case
  proof (cases "r_species d = sp")
    case True
    then have "list_ex (\<lambda>pr. r_species pr = r_species d) ps" using Cons.prems by simp
    then show ?thesis using True Cons.IH [OF Cons.prems] by (simp add: merge_ratings_Cons)
  next
    case False
    let ?ps = "if list_ex (\<lambda>pr. r_species pr = r_species d) ps then ps else ps @ [d]"
    have "list_ex (\<lambda>pr. r_species pr = sp) ?ps" using Cons.prems by simp
    then show ?thesis using False Cons.IH [of ?ps] by (simp add: merge_ratings_Cons)
  qed
qed

lemma set_first_rating_per_species: "set (first_rating_per_species rs) \<subseteq> set rs"
  by (induction rs rule: first_rating_per_species.induct) auto

lemma first_rating_per_species_distinct:
  "distinct (map r_species rs) \<Longrightarrow> first_rating_per_species rs = rs"
proof (induction rs)
  case Nil
  then show ?case by simp
next
  case (Cons r rs)
  have "\<forall>x \<in> set rs. r_species x \<noteq> r_species r" using Cons.prems by (auto simp: image_iff)
  then have "filter (\<lambda>x. r_species x \<noteq> r_species r) rs = rs" by simp
  then show ?case using Cons by simp
qed

text \<open>The loop in closed form: the primary keeps its ratings and gets, of the ratings
  of the duplicate, the first of each species that it did not rate.\<close>

lemma merge_ratings_first:
  "merge_ratings ps ds =
     ps @ filter (\<lambda>dr. \<not> list_ex (\<lambda>pr. r_species pr = r_species dr) ps)
            (first_rating_per_species ds)"
proof (induction ds arbitrary: ps rule: first_rating_per_species.induct)
  case 1
  then show ?case by (simp add: merge_ratings_Nil)
next
  case (2 d ds)
  let ?rest = "filter (\<lambda>x. r_species x \<noteq> r_species d) ds"
  show ?case
  proof (cases "list_ex (\<lambda>pr. r_species pr = r_species d) ps")
    case True
    have a: "merge_ratings ps (d # ds) = merge_ratings ps ds"
      using True by (simp add: merge_ratings_Cons)
    have b: "merge_ratings ps ds = merge_ratings ps ?rest"
      using merge_ratings_skip [OF True, of ds] by simp
    have c: "merge_ratings ps ?rest =
        ps @ filter (\<lambda>dr. \<not> list_ex (\<lambda>pr. r_species pr = r_species dr) ps)
               (first_rating_per_species ?rest)"
      by (rule "2.IH")
    have e: "filter (\<lambda>dr. \<not> list_ex (\<lambda>pr. r_species pr = r_species dr) ps)
               (first_rating_per_species (d # ds)) =
             filter (\<lambda>dr. \<not> list_ex (\<lambda>pr. r_species pr = r_species dr) ps)
               (first_rating_per_species ?rest)"
      using True by simp
    show ?thesis by (simp only: a b c e)
  next
    case False
    have rated: "list_ex (\<lambda>pr. r_species pr = r_species d) (ps @ [d])" by simp
    have others: "\<And>x. x \<in> set (first_rating_per_species ?rest) \<Longrightarrow> r_species x \<noteq> r_species d"
      using set_first_rating_per_species [of ?rest] by auto
    have same: "filter (\<lambda>dr. \<not> list_ex (\<lambda>pr. r_species pr = r_species dr) (ps @ [d]))
                  (first_rating_per_species ?rest) =
                filter (\<lambda>dr. \<not> list_ex (\<lambda>pr. r_species pr = r_species dr) ps)
                  (first_rating_per_species ?rest)"
    proof (rule filter_cong [OF refl])
      fix x assume "x \<in> set (first_rating_per_species ?rest)"
      then have "r_species x \<noteq> r_species d" by (rule others)
      then show "(\<not> list_ex (\<lambda>pr. r_species pr = r_species x) (ps @ [d])) =
                 (\<not> list_ex (\<lambda>pr. r_species pr = r_species x) ps)"
        by auto
    qed
    have a: "merge_ratings ps (d # ds) = merge_ratings (ps @ [d]) ds"
      using False by (simp add: merge_ratings_Cons)
    have b: "merge_ratings (ps @ [d]) ds = merge_ratings (ps @ [d]) ?rest"
      using merge_ratings_skip [OF rated, of ds] by simp
    have c: "merge_ratings (ps @ [d]) ?rest =
        (ps @ [d]) @ filter (\<lambda>dr. \<not> list_ex (\<lambda>pr. r_species pr = r_species dr) (ps @ [d]))
               (first_rating_per_species ?rest)"
      by (rule "2.IH")
    have e: "filter (\<lambda>dr. \<not> list_ex (\<lambda>pr. r_species pr = r_species dr) ps)
               (first_rating_per_species (d # ds)) =
             d # filter (\<lambda>dr. \<not> list_ex (\<lambda>pr. r_species pr = r_species dr) ps)
               (first_rating_per_species ?rest)"
      using False by simp
    show ?thesis by (simp only: a b c e same append.assoc append_Cons append_Nil)
  qed
qed

text \<open>The primary is saved before the duplicate is deleted. When the name of the primary
  is empty, the validation of \<^verbatim>\<open>save()\<close> fails: the call throws and nothing is written
  or deleted.\<close>

lemma Ingredient_mergeDuplicates_empty_name:
  assumes "Model_findById primaryId (IngredientModel s) = Some (primaryId, primary)"
    and "Model_findById duplicateId (IngredientModel s) = Some (duplicateId, duplicate)"
    and "i_name primary = []"
  shows "Ingredient_mergeDuplicates primaryId duplicateId s = (Inl ValidationError, s)"
  using assms
  by (simp add: Ingredient_mergeDuplicates_def IngredientModel_save_def
      ingredient_validates_def Let_def)

lemma Ingredient_mergeDuplicates_run:
  assumes p: "Model_findById primaryId (IngredientModel s) = Some (primaryId, primary)"
    and d: "Model_findById duplicateId (IngredientModel s) = Some (duplicateId, duplicate)"
    and name: "i_name primary \<noteq> []"
    and merged: "merged = primary\<lparr>i_ratings := merge_ratings (i_ratings primary) (i_ratings duplicate)\<rparr>"
  shows "Ingredient_mergeDuplicates primaryId duplicateId s =
      (Inr (primaryId, merged),
       s\<lparr>IngredientModel :=
           Model_findByIdAndDelete duplicateId (Model_save primaryId merged (IngredientModel s))\<rparr>)"
  using assms
  by (simp add: Ingredient_mergeDuplicates_def IngredientModel_save_def
      ingredient_validates_def Let_def)

text \<open>
  Claim C7, as amended. Let \<^verbatim>\<open>primaryId\<close> and \<^verbatim>\<open>duplicateId\<close> be the ids of two different
  stored ingredients, the primary with a name that is not empty. Then
  \<^verbatim>\<open>mergeDuplicates\<close> returns the primary with its own ratings unchanged, followed by
  the first rating of the duplicate for each species that the primary did not rate, in
  the order of the duplicate. When the duplicate has at most one rating per species,
  these are exactly the ratings of the duplicate whose species the primary did not
  rate. Afterwards the primary is stored with these ratings and the id of the
  duplicate resolves to nothing, so that the same call made again fails with
  \<open>NotFound\<close> and changes nothing.
\<close>

theorem Ingredient_mergeDuplicates_merges:
  assumes ids: "distinct (map fst (IngredientModel s))"
    and p: "Model_findById primaryId (IngredientModel s) = Some (primaryId, primary)"
    and d: "Model_findById duplicateId (IngredientModel s) = Some (duplicateId, duplicate)"
    and neq: "primaryId \<noteq> duplicateId"
    and name: "i_name primary \<noteq> []"
    and merged: "merged = primary\<lparr>i_ratings := i_ratings primary @
        filter (\<lambda>dr. \<not> list_ex (\<lambda>pr. r_species pr = r_species dr) (i_ratings primary))
          (first_rating_per_species (i_ratings duplicate))\<rparr>"
    and s': "s' = snd (Ingredient_mergeDuplicates primaryId duplicateId s)"
  shows "fst (Ingredient_mergeDuplicates primaryId duplicateId s) = Inr (primaryId, merged) \<and>
         Model_findById primaryId (IngredientModel s') = Some (primaryId, merged) \<and>
         Model_findById duplicateId (IngredientModel s') = None \<and>
         Ingredient_mergeDuplicates primaryId duplicateId s' = (Inl NotFound, s') \<and>
         (distinct (map r_species (i_ratings duplicate)) \<longrightarrow>
            i_ratings merged = i_ratings primary @
              filter (\<lambda>dr. \<not> list_ex (\<lambda>pr. r_species pr = r_species dr) (i_ratings primary))
                (i_ratings duplicate))"
proof -
  have m: "merged = primary\<lparr>i_ratings := merge_ratings (i_ratings primary) (i_ratings duplicate)\<rparr>"
    using merged by (simp add: merge_ratings_first)
  have run: "Ingredient_mergeDuplicates primaryId duplicateId s =
      (Inr (primaryId, merged),
       s\<lparr>IngredientModel :=
           Model_findByIdAndDelete duplicateId (Model_save primaryId merged (IngredientModel s))\<rparr>)"
    by (rule Ingredient_mergeDuplicates_run [OF p d name m])
  have c': "IngredientModel s' =
      Model_findByIdAndDelete duplicateId (Model_save primaryId merged (IngredientModel s))"
    using run s' by simp
  have ids': "distinct (map fst (Model_save primaryId merged (IngredientModel s)))"
    using ids by (simp add: map_fst_Model_save)
  have pin: "primaryId \<in> fst ` set (IngredientModel s)"
    using Model_findById_Some [OF p] by force
  have gone: "Model_findById duplicateId (IngredientModel s') = None"
    using c' Model_findById_delete [OF ids'] by simp
  have kept: "Model_findById primaryId (IngredientModel s') = Some (primaryId, merged)"
    using c' Model_findById_delete [OF ids'] neq pin by (simp add: Model_findById_save)
  have again: "Ingredient_mergeDuplicates primaryId duplicateId s' = (Inl NotFound, s')"
    using gone kept by (simp add: Ingredient_mergeDuplicates_def)
  have exact: "distinct (map r_species (i_ratings duplicate)) \<longrightarrow>
      i_ratings merged = i_ratings primary @
        filter (\<lambda>dr. \<not> list_ex (\<lambda>pr. r_species pr = r_species dr) (i_ratings primary))
          (i_ratings duplicate)"
    using merged by (simp add: first_rating_per_species_distinct)
  show ?thesis using run kept gone again exact by simp
qed

theorem Ingredient_mergeDuplicates_merges_witness:
  "distinct (map fst
      [(0::nat, \<lparr>i_name = ''Chicken'',
              i_ratings = [\<lparr>r_species = Dog, r_healthRating = Some 4, r_notes = None\<rparr>]\<rparr>),
       (1, \<lparr>i_name = ''Chicken'',
              i_ratings = [\<lparr>r_species = Cat, r_healthRating = Some 7, r_notes = None\<rparr>,
                           \<lparr>r_species = Dog, r_healthRating = Some 9, r_notes = None\<rparr>]\<rparr>)]) \<and>
   (0::nat) \<noteq> 1 \<and> i_name \<lparr>i_name = ''Chicken'',
              i_ratings = [\<lparr>r_species = Dog, r_healthRating = Some 4, r_notes = None\<rparr>]\<rparr> \<noteq> [] \<and>
   fst (Ingredient_mergeDuplicates 0 1
     \<lparr>ProductModel = [],
      IngredientModel =
        [(0, \<lparr>i_name = ''Chicken'',
              i_ratings = [\<lparr>r_species = Dog, r_healthRating = Some 4, r_notes = None\<rparr>]\<rparr>),
         (1, \<lparr>i_name = ''Chicken'',
              i_ratings = [\<lparr>r_species = Cat, r_healthRating = Some 7, r_notes = None\<rparr>,
                           \<lparr>r_species = Dog, r_healthRating = Some 9, r_notes = None\<rparr>]\<rparr>)],
      next_oid = 2, started = []\<rparr>) =
   Inr (0, \<lparr>i_name = ''Chicken'',
              i_ratings = [\<lparr>r_species = Dog, r_healthRating = Some 4, r_notes = None\<rparr>,
                           \<lparr>r_species = Cat, r_healthRating = Some 7, r_notes = None\<rparr>]\<rparr>) \<and>
   Model_findById 1 (IngredientModel (snd (Ingredient_mergeDuplicates 0 1
     \<lparr>ProductModel = [],
      IngredientModel =
        [(0, \<lparr>i_name = ''Chicken'',
              i_ratings = [\<lparr>r_species = Dog, r_healthRating = Some 4, r_notes = None\<rparr>]\<rparr>),
         (1, \<lparr>i_name = ''Chicken'',
              i_ratings = [\<lparr>r_species = Cat, r_healthRating = Some 7, r_notes = None\<rparr>,
                           \<lparr>r_species = Dog, r_healthRating = Some 9, r_notes = None\<rparr>]\<rparr>)],
      next_oid = 2, started = []\<rparr>))) = None"
proof -
  let ?A = "\<lparr>i_name = ''Chicken'',
              i_ratings = [\<lparr>r_species = Dog, r_healthRating = Some 4, r_notes = None\<rparr>]\<rparr>"
  let ?B = "\<lparr>i_name = ''Chicken'',
              i_ratings = [\<lparr>r_species = Cat, r_healthRating = Some 7, r_notes = None\<rparr>,
                           \<lparr>r_species = Dog, r_healthRating = Some 9, r_notes = None\<rparr>]\<rparr>"
  let ?s = "\<lparr>ProductModel = [], IngredientModel = [(0, ?A), (1, ?B)], next_oid = 2,
             started = []\<rparr>"
  have ids: "distinct (map fst (IngredientModel ?s))" by simp
  have p: "Model_findById 0 (IngredientModel ?s) = Some (0, ?A)" by (simp add: Model_findById_def)
  have d: "Model_findById 1 (IngredientModel ?s) = Some (1, ?B)" by (simp add: Model_findById_def)
  have neq: "(0::nat) \<noteq> 1" by simp
  have name: "i_name ?A \<noteq> []" by simp
  show ?thesis
    using Ingredient_mergeDuplicates_merges [OF ids p d neq name refl refl] ids name by simp
qed

text \<open>
  The claim as stated, that exactly the ratings of the duplicate whose species is not
  rated on the primary are copied, fails when the duplicate rates a species twice.
  The primary rates \<^verbatim>\<open>dog\<close> and the duplicate rates \<^verbatim>\<open>cat\<close> twice: both ratings of the
  duplicate are of a species that is not rated on the primary, and the first of them
  only is copied.
\<close>

theorem Ingredient_mergeDuplicates_repeated_species_counterexample:
  "fst (Ingredient_mergeDuplicates 0 1
     \<lparr>ProductModel = [],
      IngredientModel =
        [(0, \<lparr>i_name = ''Chicken'',
              i_ratings = [\<lparr>r_species = Dog, r_healthRating = Some 4, r_notes = None\<rparr>]\<rparr>),
         (1, \<lparr>i_name = ''Chicken'',
              i_ratings = [\<lparr>r_species = Cat, r_healthRating = Some 7, r_notes = None\<rparr>,
                           \<lparr>r_species = Cat, r_healthRating = Some 9, r_notes = None\<rparr>]\<rparr>)],
      next_oid = 2, started = []\<rparr>) =
   Inr (0, \<lparr>i_name = ''Chicken'',
              i_ratings = [\<lparr>r_species = Dog, r_healthRating = Some 4, r_notes = None\<rparr>,
                           \<lparr>r_species = Cat, r_healthRating = Some 7, r_notes = None\<rparr>]\<rparr>) \<and>
   filter (\<lambda>dr. \<not> list_ex (\<lambda>pr. r_species pr = r_species dr) (i_ratings \<lparr>i_name = ''Chicken'',
              i_ratings = [\<lparr>r_species = Dog, r_healthRating = Some 4, r_notes = None\<rparr>]\<rparr>))
     (i_ratings \<lparr>i_name = ''Chicken'',
              i_ratings = [\<lparr>r_species = Cat, r_healthRating = Some 7, r_notes = None\<rparr>,
                           \<lparr>r_species = Cat, r_healthRating = Some 9, r_notes = None\<rparr>]\<rparr>) =
   [\<lparr>r_species = Cat, r_healthRating = Some 7, r_notes = None\<rparr>,
    \<lparr>r_species = Cat, r_healthRating = Some 9, r_notes = None\<rparr>]"
  by (simp add: Ingredient_mergeDuplicates_def Model_findById_def merge_ratings_def
      IngredientModel_save_def ingredient_validates_def Let_def)

text \<open>
  Claim C9, as amended. \<^verbatim>\<open>mergeDuplicates\<close> with the id of one stored ingredient in both
  places, the name of the ingredient not empty, does not fail. It returns the
  ingredient as it was stored, ratings unchanged, and deletes it: afterwards the id
  resolves to nothing.
\<close>

theorem Ingredient_mergeDuplicates_same_id:
  assumes ids: "distinct (map fst (IngredientModel s))"
    and p: "Model_findById i (IngredientModel s) = Some (i, ing)"
    and name: "i_name ing \<noteq> []"
  shows "Ingredient_mergeDuplicates i i s =
           (Inr (i, ing), s\<lparr>IngredientModel := Model_findByIdAndDelete i (IngredientModel s)\<rparr>) \<and>
         Model_findById i (Model_findByIdAndDelete i (IngredientModel s)) = None"
proof -
  have same: "ing = ing\<lparr>i_ratings := merge_ratings (i_ratings ing) (i_ratings ing)\<rparr>"
    by (simp add: merge_ratings_self)
  have run: "Ingredient_mergeDuplicates i i s =
      (Inr (i, ing), s\<lparr>IngredientModel := Model_findByIdAndDelete i (IngredientModel s)\<rparr>)"
    using Ingredient_mergeDuplicates_run [OF p p name same] p by (simp add: Model_save_same)
  show ?thesis using run Model_findById_delete [OF ids, of i i] by simp
qed

theorem Ingredient_mergeDuplicates_same_id_witness:
  "Model_findById 0
     [(0::nat, \<lparr>i_name = ''Chicken'',
              i_ratings = [\<lparr>r_species = Dog, r_healthRating = Some 4, r_notes = None\<rparr>]\<rparr>)] =
     Some (0, \<lparr>i_name = ''Chicken'',
              i_ratings = [\<lparr>r_species = Dog, r_healthRating = Some 4, r_notes = None\<rparr>]\<rparr>) \<and>
   i_name \<lparr>i_name = ''Chicken'',
              i_ratings = [\<lparr>r_species = Dog, r_healthRating = Some 4, r_notes = None\<rparr>]\<rparr> \<noteq> [] \<and>
   Ingredient_mergeDuplicates 0 0
     \<lparr>ProductModel = [],
      IngredientModel =
        [(0, \<lparr>i_name = ''Chicken'',
              i_ratings = [\<lparr>r_species = Dog, r_healthRating = Some 4, r_notes = None\<rparr>]\<rparr>)],
      next_oid = 1, started = []\<rparr> =
   (Inr (0, \<lparr>i_name = ''Chicken'',
              i_ratings = [\<lparr>r_species = Dog, r_healthRating = Some 4, r_notes = None\<rparr>]\<rparr>),
    \<lparr>ProductModel = [], IngredientModel = [], next_oid = 1, started = []\<rparr>)"
proof -
  let ?A = "\<lparr>i_name = ''Chicken'',
              i_ratings = [\<lparr>r_species = Dog, r_healthRating = Some 4, r_notes = None\<rparr>]\<rparr>"
  let ?s = "\<lparr>ProductModel = [], IngredientModel = [(0, ?A)], next_oid = 1, started = []\<rparr>"
  have ids: "distinct (map fst (IngredientModel ?s))" by simp
  have p: "Model_findById 0 (IngredientModel ?s) = Some (0, ?A)" by (simp add: Model_findById_def)
  have name: "i_name ?A \<noteq> []" by simp
  show ?thesis
    using Ingredient_mergeDuplicates_same_id [OF ids p name] p name by simp
qed

text \<open>
  The claim as stated, for every stored ingredient, fails at an ingredient whose name
  is empty (\<^verbatim>\<open>Ingredient.update\<close> stores such a name): \<^verbatim>\<open>primary.save()\<close> throws
  on the validation of the name, before the deletion, so the call fails and the
  ingredient stays stored.
\<close>

theorem Ingredient_mergeDuplicates_same_id_empty_name_counterexample:
  "Ingredient_mergeDuplicates 0 0
     \<lparr>ProductModel = [],
      IngredientModel =
        [(0, \<lparr>i_name = [],
              i_ratings = [\<lparr>r_species = Dog, r_healthRating = Some 4, r_notes = None\<rparr>]\<rparr>)],
      next_oid = 1, started = []\<rparr> =
   (Inl ValidationError,
    \<lparr>ProductModel = [],
      IngredientModel =
        [(0, \<lparr>i_name = [],
              i_ratings = [\<lparr>r_species = Dog, r_healthRating = Some 4, r_notes = None\<rparr>]\<rparr>)],
      next_oid = 1, started = []\<rparr>)"
  by (simp add: Ingredient_mergeDuplicates_def Model_findById_def merge_ratings_def
      IngredientModel_save_def ingredient_validates_def Let_def)

subsection \<open>Ingredient.find\<close>

text \<open>
  Claim C5. With \<^verbatim>\<open>minRating\<close> and \<^verbatim>\<open>maxRating\<close> both given and no \<^verbatim>\<open>rating\<close>, the
  claim asks for the ingredients with a health rating between the two bounds. In
  \<^verbatim>\<open>find\<close> the assignment for \<^verbatim>\<open>maxRating\<close> replaces the value that the assignment for
  \<^verbatim>\<open>minRating\<close> gave to the same key, so only the upper bound reaches the store: with
  bounds 5 and 10, an ingredient whose only rating is 1 is returned.
\<close>

theorem Ingredient_find_minRating_overwritten:
  "Ingredient_find
     \<lparr>f_id = None, f_name = None, f_species = None, f_rating = None,
      f_minRating = Some 5, f_maxRating = Some 10\<rparr>
     \<lparr>ProductModel = [],
      IngredientModel =
        [(0, \<lparr>i_name = ''Corn'',
              i_ratings = [\<lparr>r_species = Cat, r_healthRating = Some 1, r_notes = None\<rparr>]\<rparr>)],
      next_oid = 1, started = []\<rparr>
   = (Inr (Many
        [(0, \<lparr>i_name = ''Corn'',
              i_ratings = [\<lparr>r_species = Cat, r_healthRating = Some 1, r_notes = None\<rparr>]\<rparr>)]),
      \<lparr>ProductModel = [],
      IngredientModel =
        [(0, \<lparr>i_name = ''Corn'',
              i_ratings = [\<lparr>r_species = Cat, r_healthRating = Some 1, r_notes = None\<rparr>]\<rparr>)],
      next_oid = 1, started = []\<rparr>)"
  by (simp add: Ingredient_find_def Ingredient_find_query_def Model_find_def
      ingredient_matches_def empty_ingredient_query_def)

text \<open>The two bounds in general: the lower one has no effect when the upper one is
  given, and neither has when a rating is given.\<close>

lemma Ingredient_find_query_bounds:
  "f_rating f = None \<Longrightarrow>
   Ingredient_find_query (f\<lparr>f_minRating := Some lo, f_maxRating := Some hi\<rparr>) =
   Ingredient_find_query (f\<lparr>f_minRating := None, f_maxRating := Some hi\<rparr>)"
  by (simp add: Ingredient_find_query_def Let_def split: sum.splits option.splits)

lemma Ingredient_find_rating_given:
  "f_rating f \<noteq> None \<Longrightarrow>
   Ingredient_find (f\<lparr>f_minRating := lo, f_maxRating := hi\<rparr>) s = Ingredient_find f s"
  by (auto simp: Ingredient_find_def Ingredient_find_query_def Let_def
      split: sum.splits option.splits)

lemma matches_here_literal:
  "matches_here (map PatternCharacter p) cs = prefix (map Canonicalize p) (map Canonicalize cs)"
proof (induction p arbitrary: cs)
  case Nil
  then show ?case by simp
next
  case (Cons a p)
  then show ?case by (cases cs) auto
qed

lemma regexp_test_literal:
  "regexp_test (map PatternCharacter p) cs = contains_ignoring_case p cs"
proof (induction cs)
  case Nil
  then show ?case by (cases p) (simp_all add: contains_ignoring_case_def)
next
  case (Cons c cs)
  then show ?case
    using matches_here_literal [of p "c # cs"]
    by (simp add: contains_ignoring_case_def sublist_Cons_right)
qed

lemma RegExp_i_literal:
  assumes "list_all (\<lambda>c. \<not> SyntaxCharacter c) p"
  shows "RegExp_i p = Inr (map PatternCharacter p)"
proof -
  have dot: "SyntaxCharacter (CHR ''.'')" by (simp add: SyntaxCharacter_def)
  have quant: "c \<in> set ''*+?'' \<Longrightarrow> SyntaxCharacter c" for c
    by (auto simp: SyntaxCharacter_def)
  have nodot: "\<forall>c \<in> set p. c \<noteq> CHR ''.''" using assms dot by (auto simp: list_all_iff)
  have start: "\<not> (p \<noteq> [] \<and> hd p \<in> set ''*+?'')"
  proof (cases p)
    case Nil
    then show ?thesis by simp
  next
    case (Cons a as)
    then have "\<not> SyntaxCharacter a" using assms by simp
    then have "a \<notin> set ''*+?''" using quant by blast
    with Cons show ?thesis by simp
  qed
  have ok: "list_all (\<lambda>c. c = CHR ''.'' \<or> \<not> SyntaxCharacter c) p"
    using assms by (simp add: list_all_iff)
  have items: "map (\<lambda>c. if c = CHR ''.'' then AnyCharacter else PatternCharacter c) p =
               map PatternCharacter p"
    using nodot by simp
  show ?thesis using start ok items unfolding RegExp_i_def by simp
qed

lemma Ingredient_find_query_name:
  assumes "RegExp_i name = Inr re" and "f_name f = Some name"
  shows "\<exists>others. Ingredient_find_query (f\<lparr>f_name := None\<rparr>) = Inr others \<and>
           q_name others = None \<and>
           Ingredient_find_query f = Inr (others\<lparr>q_name := Some re\<rparr>)"
  using assms
  by (simp add: Ingredient_find_query_def empty_ingredient_query_def Let_def
      split: option.splits)

lemma ingredient_matches_name:
  "q_name others = None \<Longrightarrow>
   ingredient_matches (others\<lparr>q_name := Some re\<rparr>) ing =
     (regexp_test re (i_name ing) \<and> ingredient_matches others ing)"
  by (simp add: ingredient_matches_def)

lemma ingredient_matches_empty: "ingredient_matches empty_ingredient_query ing"
  by (simp add: ingredient_matches_def empty_ingredient_query_def)

text \<open>
  Claim C6, as amended. The name filter is the source of a regular expression. For a
  filter string without syntax characters (none of \<^verbatim>\<open>^ $ \ . * + ? ( ) [ ] { } |\<close>) and
  no id, \<^verbatim>\<open>find\<close> returns exactly the ingredients whose name contains the filter string,
  compared case-insensitively, and that pass the other filters of the call; when the
  name is the only filter, these are exactly the ingredients whose name contains the
  filter string. The result keeps the order of the collection.
\<close>

theorem Ingredient_find_name_literal:
  assumes lit: "list_all (\<lambda>c. \<not> SyntaxCharacter c) name"
    and id: "f_id f = None"
    and nm: "f_name f = Some name"
  shows "(\<exists>others. Ingredient_find_query (f\<lparr>f_name := None\<rparr>) = Inr others \<and>
            Ingredient_find f s =
              (Inr (Many (filter (\<lambda>d. contains_ignoring_case name (i_name (snd d)) \<and>
                                     ingredient_matches others (snd d))
                      (IngredientModel s))), s)) \<and>
         (f_species f = None \<and> f_rating f = None \<and> f_minRating f = None \<and> f_maxRating f = None
            \<longrightarrow> Ingredient_find f s =
              (Inr (Many (filter (\<lambda>d. contains_ignoring_case name (i_name (snd d)))
                      (IngredientModel s))), s))"
proof -
  obtain others where o: "Ingredient_find_query (f\<lparr>f_name := None\<rparr>) = Inr others"
    and on: "q_name others = None"
    and q: "Ingredient_find_query f = Inr (others\<lparr>q_name := Some (map PatternCharacter name)\<rparr>)"
    using Ingredient_find_query_name [OF RegExp_i_literal [OF lit] nm] by blast
  have run: "Ingredient_find f s =
              (Inr (Many (filter (\<lambda>d. contains_ignoring_case name (i_name (snd d)) \<and>
                                     ingredient_matches others (snd d))
                      (IngredientModel s))), s)"
    using id q on
    by (simp add: Ingredient_find_def Model_find_def ingredient_matches_name regexp_test_literal)
  have alone: "others = empty_ingredient_query"
    if "f_species f = None \<and> f_rating f = None \<and> f_minRating f = None \<and> f_maxRating f = None"
    using that o by (simp add: Ingredient_find_query_def Let_def)
  show ?thesis using o run alone ingredient_matches_empty by auto
qed

theorem Ingredient_find_name_literal_witness:
  "list_all (\<lambda>c. \<not> SyntaxCharacter c) ''chick'' \<and>
   Ingredient_find
     \<lparr>f_id = None, f_name = Some ''chick'', f_species = None, f_rating = None,
      f_minRating = None, f_maxRating = None\<rparr>
     \<lparr>ProductModel = [],
      IngredientModel = [(0, \<lparr>i_name = ''Rice'', i_ratings = []\<rparr>),
                         (1, \<lparr>i_name = ''A Chicken'', i_ratings = []\<rparr>)],
      next_oid = 2, started = []\<rparr> =
   (Inr (Many [(1, \<lparr>i_name = ''A Chicken'', i_ratings = []\<rparr>)]),
    \<lparr>ProductModel = [],
      IngredientModel = [(0, \<lparr>i_name = ''Rice'', i_ratings = []\<rparr>),
                         (1, \<lparr>i_name = ''A Chicken'', i_ratings = []\<rparr>)],
      next_oid = 2, started = []\<rparr>)"
proof -
  let ?f = "\<lparr>f_id = None, f_name = Some ''chick'', f_species = None, f_rating = None,
      f_minRating = None, f_maxRating = None\<rparr>"
  have lit: "list_all (\<lambda>c. \<not> SyntaxCharacter c) ''chick''"
    by (simp add: SyntaxCharacter_def)
  have id: "f_id ?f = None" and nm: "f_name ?f = Some ''chick''" by simp_all
  have no: "\<not> contains_ignoring_case ''chick'' ''Rice''"
    by (simp add: contains_ignoring_case_def sublist_Cons_right Canonicalize_def)
  have yes: "contains_ignoring_case ''chick'' ''A Chicken''"
    by (simp add: contains_ignoring_case_def sublist_Cons_right Canonicalize_def)
  show ?thesis
    using Ingredient_find_name_literal [OF lit id nm] lit no yes by simp
qed

text \<open>
  The claim as stated, for all filter strings, fails at the filter \<^verbatim>\<open>a.c\<close>: the dot
  stands for any character, so the ingredient named \<^verbatim>\<open>Abc\<close> is returned, and its name
  does not contain \<^verbatim>\<open>a.c\<close>.
\<close>

theorem Ingredient_find_name_dot_counterexample:
  "Ingredient_find
     \<lparr>f_id = None, f_name = Some ''a.c'', f_species = None, f_rating = None,
      f_minRating = None, f_maxRating = None\<rparr>
     \<lparr>ProductModel = [],
      IngredientModel = [(0, \<lparr>i_name = ''Abc'', i_ratings = []\<rparr>)],
      next_oid = 1, started = []\<rparr>
   = (Inr (Many [(0, \<lparr>i_name = ''Abc'', i_ratings = []\<rparr>)]),
      \<lparr>ProductModel = [],
      IngredientModel = [(0, \<lparr>i_name = ''Abc'', i_ratings = []\<rparr>)],
      next_oid = 1, started = []\<rparr>) \<and>
   \<not> contains_ignoring_case ''a.c'' ''Abc''"
  by (simp add: Ingredient_find_def Ingredient_find_query_def Model_find_def ingredient_matches_def
      empty_ingredient_query_def RegExp_i_def SyntaxCharacter_def Canonicalize_def
      contains_ignoring_case_def sublist_Cons_right)

text \<open>A filter that begins with \<^verbatim>\<open>*\<close> makes the constructor throw.\<close>

lemma Ingredient_find_name_star:
  "Ingredient_find
     \<lparr>f_id = None, f_name = Some ''*'', f_species = None, f_rating = None,
      f_minRating = None, f_maxRating = None\<rparr> s = (Inl SyntaxError, s)"
  by (simp add: Ingredient_find_def Ingredient_find_query_def RegExp_i_def)

subsection \<open>Product.find\<close>

text \<open>
  Claim C1. The claim asks that a \<^verbatim>\<open>lifeStage\<close> filter \<^verbatim>\<open>adult\<close> selects the products
  stored as \<^verbatim>\<open>adult\<close> or \<^verbatim>\<open>all\<close> and never one stored as \<^verbatim>\<open>young\<close>. \<^verbatim>\<open>Product.find\<close>
  of \<^verbatim>\<open>src/unnamed/part_003\<close> builds that query and does not pass it on: with the filter
  \<^verbatim>\<open>adult\<close> it returns the one stored product, whose life stage is \<^verbatim>\<open>young\<close>.
\<close>

theorem Product_find_drops_query:
  "Product_find
     \<lparr>pf_id = None, pf_brand = None, pf_flavor = None, pf_species = None,
      pf_lifeStage = Some Adult, pf_foodType = None\<rparr>
     \<lparr>ProductModel =
        [(0, \<lparr>p_brand = ''Acme'', p_flavor = ''Beef'', p_species = Dog, p_lifeStage = Young,
              p_foodType = Dry, p_ingredients = [], p_sizes = [], p_feedingChart = []\<rparr>)],
      IngredientModel = [], next_oid = 1, started = []\<rparr>
   = (Inr (Many [(0, \<lparr>p_brand = ''Acme'', p_flavor = ''Beef'', p_species = Dog, p_lifeStage = Young,
              p_foodType = Dry, p_ingredients = [], p_sizes = [], p_feedingChart = []\<rparr>)]),
      \<lparr>ProductModel =
        [(0, \<lparr>p_brand = ''Acme'', p_flavor = ''Beef'', p_species = Dog, p_lifeStage = Young,
              p_foodType = Dry, p_ingredients = [], p_sizes = [], p_feedingChart = []\<rparr>)],
      IngredientModel = [], next_oid = 1, started = []\<rparr>)"
  by (simp add: Product_find_def Model_find_def product_matches_def empty_product_query_def)

text \<open>The revision \<^verbatim>\<open>src/server/models/productModel.ts\<close> passes the query, and there the
  \<^verbatim>\<open>lifeStage\<close> filter selects the products stored with that life stage or with
  \<^verbatim>\<open>all\<close>: the filter \<^verbatim>\<open>all\<close> selects those stored as \<^verbatim>\<open>all\<close> only, and the filter
  \<^verbatim>\<open>adult\<close> none stored as \<^verbatim>\<open>young\<close>.\<close>

lemma Product_find_productModel_ts_lifeStage:
  "Product_find_productModel_ts
     \<lparr>pf_id = None, pf_brand = None, pf_flavor = None, pf_species = None,
      pf_lifeStage = Some lifeStage, pf_foodType = None\<rparr> s =
   (Inr (Many (filter (\<lambda>d. p_lifeStage (snd d) = lifeStage \<or> p_lifeStage (snd d) = All)
                 (ProductModel s))), s)"
  by (simp add: Product_find_productModel_ts_def Product_find_query_def Model_find_def
      product_matches_def empty_product_query_def)

subsection \<open>Product.add\<close>

lemma Model_findOne_natural_key:
  "(Model_findOne
      (\<lambda>p. p_brand p = brand \<and> p_flavor p = flavor \<and> p_species p = species \<and>
           p_lifeStage p = lifeStage \<and> p_foodType p = foodType) c = None) =
   ((brand, flavor, species, lifeStage, foodType) \<notin> natural_key ` snd ` set c)"
  by (force simp: Model_findOne_def find_None_iff natural_key_def)

lemma Product_add_existing:
  assumes "(brand, flavor, species, lifeStage, foodType) \<in> natural_key ` snd ` set (ProductModel s)"
  shows "Product_add brand flavor species lifeStage foodType ingredients sizes feedingChart s =
           (Inl AlreadyExists, s)"
proof -
  have "Model_findOne
      (\<lambda>p. p_brand p = brand \<and> p_flavor p = flavor \<and> p_species p = species \<and>
           p_lifeStage p = lifeStage \<and> p_foodType p = foodType) (ProductModel s) \<noteq> None"
    using assms by (simp add: Model_findOne_natural_key)
  then show ?thesis by (auto simp: Product_add_def)
qed

lemma Product_add_new:
  assumes "(brand, flavor, species, lifeStage, foodType) \<notin> natural_key ` snd ` set (ProductModel s)"
    and "d = (next_oid s,
          \<lparr>p_brand = brand, p_flavor = flavor, p_species = species, p_lifeStage = lifeStage,
           p_foodType = foodType, p_ingredients = ingredients, p_sizes = sizes,
           p_feedingChart = feedingChart\<rparr>)"
  shows "fst (Product_add brand flavor species lifeStage foodType ingredients sizes feedingChart s) =
           Inr d \<and>
         ProductModel (snd (Product_add brand flavor species lifeStage foodType ingredients sizes
             feedingChart s)) = ProductModel s @ [d]"
proof -
  have "Model_findOne
      (\<lambda>p. p_brand p = brand \<and> p_flavor p = flavor \<and> p_species p = species \<and>
           p_lifeStage p = lifeStage \<and> p_foodType p = foodType) (ProductModel s) = None"
    using assms(1) by (simp add: Model_findOne_natural_key)
  then show ?thesis
    using assms(2) by (simp add: Product_add_def Let_def)
qed

text \<open>
  Claim C4. \<^verbatim>\<open>Product.add\<close> fails with \<open>AlreadyExists\<close> exactly when a stored product
  has the same five-field tuple, and then leaves the database as it was. Otherwise it
  returns the new product, which has that tuple, and appends it to the stored
  products. Two calls in a row whose tuples differ, neither tuple stored before, both
  succeed, and both products are stored afterwards.
\<close>

theorem Product_add_unique_natural_key:
  assumes k: "k = (brand, flavor, species, lifeStage, foodType)"
    and k': "k' = (brand', flavor', species', lifeStage', foodType')"
    and r: "r = Product_add brand flavor species lifeStage foodType ingredients sizes feedingChart s"
    and r': "r' = Product_add brand' flavor' species' lifeStage' foodType' ingredients' sizes'
                    feedingChart' (snd r)"
  shows "(fst r = Inl AlreadyExists) = (k \<in> natural_key ` snd ` set (ProductModel s)) \<and>
         (fst r = Inl AlreadyExists \<longrightarrow> snd r = s) \<and>
         (k \<notin> natural_key ` snd ` set (ProductModel s) \<longrightarrow>
            (\<exists>d. fst r = Inr d \<and> natural_key (snd d) = k \<and>
                 ProductModel (snd r) = ProductModel s @ [d])) \<and>
         (k \<notin> natural_key ` snd ` set (ProductModel s) \<and>
          k' \<notin> natural_key ` snd ` set (ProductModel s) \<and> k \<noteq> k' \<longrightarrow>
            (\<exists>d d'. fst r = Inr d \<and> fst r' = Inr d' \<and>
                 natural_key (snd d) = k \<and> natural_key (snd d') = k' \<and>
                 ProductModel (snd r') = ProductModel s @ [d, d']))"
proof -
  let ?d = "(next_oid s,
          \<lparr>p_brand = brand, p_flavor = flavor, p_species = species, p_lifeStage = lifeStage,
           p_foodType = foodType, p_ingredients = ingredients, p_sizes = sizes,
           p_feedingChart = feedingChart\<rparr>)"
  let ?d' = "(next_oid (snd r),
          \<lparr>p_brand = brand', p_flavor = flavor', p_species = species', p_lifeStage = lifeStage',
           p_foodType = foodType', p_ingredients = ingredients', p_sizes = sizes',
           p_feedingChart = feedingChart'\<rparr>)"
  have old: "k \<in> natural_key ` snd ` set (ProductModel s) \<Longrightarrow> r = (Inl AlreadyExists, s)"
    using k r Product_add_existing by simp
  have new: "fst r = Inr ?d \<and> ProductModel (snd r) = ProductModel s @ [?d]"
    if "k \<notin> natural_key ` snd ` set (ProductModel s)"
    using that k r Product_add_new [OF _ refl] by simp
  have key: "natural_key (snd ?d) = k" using k by (simp add: natural_key_def)
  have key': "natural_key (snd ?d') = k'" using k' by (simp add: natural_key_def)
  have iff: "(fst r = Inl AlreadyExists) = (k \<in> natural_key ` snd ` set (ProductModel s))"
    using old new by (cases "k \<in> natural_key ` snd ` set (ProductModel s)") auto
  have unchanged: "fst r = Inl AlreadyExists \<longrightarrow> snd r = s"
    using iff old by auto
  have one: "k \<notin> natural_key ` snd ` set (ProductModel s) \<longrightarrow>
      (\<exists>d. fst r = Inr d \<and> natural_key (snd d) = k \<and> ProductModel (snd r) = ProductModel s @ [d])"
    using new key by blast
  have two: "\<exists>d d'. fst r = Inr d \<and> fst r' = Inr d' \<and>
                 natural_key (snd d) = k \<and> natural_key (snd d') = k' \<and>
                 ProductModel (snd r') = ProductModel s @ [d, d']"
    if a: "k \<notin> natural_key ` snd ` set (ProductModel s)"
      and b: "k' \<notin> natural_key ` snd ` set (ProductModel s)" and c: "k \<noteq> k'"
  proof -
    have first: "fst r = Inr ?d" and store: "ProductModel (snd r) = ProductModel s @ [?d]"
      using new [OF a] by simp_all
    have "k' \<notin> natural_key ` snd ` set (ProductModel (snd r))"
      using b c key store by auto
    then have "fst r' = Inr ?d' \<and> ProductModel (snd r') = ProductModel (snd r) @ [?d']"
      using k' r' Product_add_new [OF _ refl] by simp
    then show ?thesis using first store key key' by auto
  qed
  show ?thesis using iff unchanged one two by blast
qed

theorem Product_add_unique_natural_key_witness:
  "fst (Product_add ''Acme'' ''Beef'' Dog Adult Dry [''Beef''] [] []
      \<lparr>ProductModel = [], IngredientModel = [], next_oid = 0, started = []\<rparr>) \<noteq> Inl AlreadyExists \<and>
   (\<exists>d d'. fst (Product_add ''Acme'' ''Beef'' Dog Adult Dry [''Beef''] [] []
      \<lparr>ProductModel = [], IngredientModel = [], next_oid = 0, started = []\<rparr>) = Inr d \<and>
      fst (Product_add ''Acme'' ''Beef'' Dog Adult Wet [''Beef''] [] []
        (snd (Product_add ''Acme'' ''Beef'' Dog Adult Dry [''Beef''] [] []
          \<lparr>ProductModel = [], IngredientModel = [], next_oid = 0, started = []\<rparr>))) = Inr d') \<and>
   fst (Product_add ''Acme'' ''Beef'' Dog Adult Dry [] [] []
     (snd (Product_add ''Acme'' ''Beef'' Dog Adult Dry [''Beef''] [] []
          \<lparr>ProductModel = [], IngredientModel = [], next_oid = 0, started = []\<rparr>))) = Inl AlreadyExists"
proof -
  let ?s = "\<lparr>ProductModel = [], IngredientModel = [], next_oid = 0, started = []\<rparr>"
  let ?r = "Product_add ''Acme'' ''Beef'' Dog Adult Dry [''Beef''] [] [] ?s"
  have a: "(''Acme'', ''Beef'', Dog, Adult, Dry) \<notin> natural_key ` snd ` set (ProductModel ?s)"
    by simp
  have b: "(''Acme'', ''Beef'', Dog, Adult, Wet) \<notin> natural_key ` snd ` set (ProductModel ?s)"
    by simp
  have c: "(''Acme'', ''Beef'', Dog, Adult, Dry) \<noteq> (''Acme'', ''Beef'', Dog, Adult, Wet)"
    by simp
  have both: "fst ?r \<noteq> Inl AlreadyExists \<and>
      (\<exists>d d'. fst ?r = Inr d \<and>
         fst (Product_add ''Acme'' ''Beef'' Dog Adult Wet [''Beef''] [] [] (snd ?r)) = Inr d')"
    using Product_add_unique_natural_key [OF refl refl refl refl,
        where brand = "''Acme''" and flavor = "''Beef''" and species = Dog and lifeStage = Adult
          and foodType = Dry and ingredients = "[''Beef'']" and sizes = "[]"
          and feedingChart = "[]" and s = ?s
          and brand' = "''Acme''" and flavor' = "''Beef''" and species' = Dog
          and lifeStage' = Adult and foodType' = Wet and ingredients' = "[''Beef'']"
          and sizes' = "[]" and feedingChart' = "[]"] a b c
    by auto
  have stored: "(''Acme'', ''Beef'', Dog, Adult, Dry) \<in> natural_key ` snd ` set (ProductModel (snd ?r))"
    using Product_add_unique_natural_key [OF refl refl refl refl,
        where brand = "''Acme''" and flavor = "''Beef''" and species = Dog and lifeStage = Adult
          and foodType = Dry and ingredients = "[''Beef'']" and sizes = "[]"
          and feedingChart = "[]" and s = ?s
          and brand' = "''Acme''" and flavor' = "''Beef''" and species' = Dog
          and lifeStage' = Adult and foodType' = Wet and ingredients' = "[''Beef'']"
          and sizes' = "[]" and feedingChart' = "[]"] a
    by force
  have again: "fst (Product_add ''Acme'' ''Beef'' Dog Adult Dry [] [] [] (snd ?r)) = Inl AlreadyExists"
    using Product_add_unique_natural_key [OF refl refl refl refl,
        where brand = "''Acme''" and flavor = "''Beef''" and species = Dog and lifeStage = Adult
          and foodType = Dry and ingredients = "[]" and sizes = "[]"
          and feedingChart = "[]" and s = "snd ?r"] stored
    by simp
  show ?thesis using both again by simp
qed

subsection \<open>Product.update\<close>

text \<open>
  Claim C3. The claim asks that \<^verbatim>\<open>Product.update\<close> with an ingredient list pushes
  every name of the list to the Ingredient collection, as \<^verbatim>\<open>Product.add\<close> does.
  \<^verbatim>\<open>Product.update\<close> of \<^verbatim>\<open>src/unnamed/part_003\<close> stores the list in the product and pushes
  nothing: after an update with the list \<^verbatim>\<open>["Salmon"]\<close> the Ingredient collection is
  still empty and no push has been started.
\<close>

theorem Product_update_pushes_nothing:
  "Product_update 0
     \<lparr>u_brand = None, u_flavor = None, u_species = None, u_lifeStage = None, u_foodType = None,
      u_ingredients = Some [''Salmon''], u_sizes = None, u_feedingChart = None\<rparr>
     \<lparr>ProductModel =
        [(0, \<lparr>p_brand = ''Acme'', p_flavor = ''Beef'', p_species = Dog, p_lifeStage = Young,
              p_foodType = Dry, p_ingredients = [], p_sizes = [], p_feedingChart = []\<rparr>)],
      IngredientModel = [], next_oid = 1, started = []\<rparr>
   = (Inr (0, \<lparr>p_brand = ''Acme'', p_flavor = ''Beef'', p_species = Dog, p_lifeStage = Young,
              p_foodType = Dry, p_ingredients = [''Salmon''], p_sizes = [], p_feedingChart = []\<rparr>),
      \<lparr>ProductModel =
        [(0, \<lparr>p_brand = ''Acme'', p_flavor = ''Beef'', p_species = Dog, p_lifeStage = Young,
              p_foodType = Dry, p_ingredients = [''Salmon''], p_sizes = [], p_feedingChart = []\<rparr>)],
      IngredientModel = [], next_oid = 1, started = []\<rparr>)"
  by (simp add: Product_update_def Model_findById_def empty_update_def set_fields_def)

text \<open>In general, \<^verbatim>\<open>Product.update\<close> leaves the Ingredient collection as it is and
  starts no push.\<close>

lemma Ingredient_side_snd_if:
  "IngredientModel (snd (if c then (a, s) else (b, s\<lparr>ProductModel := x\<rparr>))) = IngredientModel s \<and>
   started (snd (if c then (a, s) else (b, s\<lparr>ProductModel := x\<rparr>))) = started s"
  by simp

lemma Product_update_starts_nothing:
  "IngredientModel (snd (Product_update i updates s)) = IngredientModel s \<and>
   started (snd (Product_update i updates s)) = started s"
proof (cases "Model_findById i (ProductModel s)")
  case None
  then show ?thesis by (simp add: Product_update_def)
next
  case (Some d)
  then show ?thesis
    unfolding Product_update_def Let_def
    by (simp only: option.case prod.case case_prod_beta Ingredient_side_snd_if simp_thms)
qed

text \<open>\<^verbatim>\<open>Product.add\<close> does push: a successful call starts, after the pushes that were
  already started, one \<^verbatim>\<open>push(name, species)\<close> for every name of the ingredient list,
  in the order of the list, with the species of the product and neither health
  rating nor notes. A call that fails starts none.\<close>

lemma Product_add_starts_pushes:
  "started (snd (Product_add brand flavor species lifeStage foodType ingredients sizes
       feedingChart s)) =
   (if fst (Product_add brand flavor species lifeStage foodType ingredients sizes feedingChart s)
         = Inl AlreadyExists
    then started s
    else started s @
         map (\<lambda>name. \<lparr>e_name = name, e_species = species, e_healthRating = None,
                       e_notes = None\<rparr>) ingredients)"
  by (simp add: Product_add_def Let_def split: option.splits)

subsection \<open>Product.addSize\<close>

lemma Product_addSize_incomplete:
  assumes "Model_findById productId (ProductModel s) = Some (productId, product)"
    and "not_string (in_packaging sz) \<or> not_number (in_price sz) \<or>
         not_number (in_count sz) \<or> not_unit (in_unit sz)"
  shows "Product_addSize productId sz s = (Inl IncompleteSizeDetails, s)"
  using assms by (simp add: Product_addSize_def)

text \<open>
  Claim C8, as amended. For a stored product, \<^verbatim>\<open>addSize\<close> fails with
  \<open>IncompleteSizeDetails\<close> whenever \<^verbatim>\<open>packaging\<close>, \<^verbatim>\<open>price\<close>, \<^verbatim>\<open>count\<close> or \<^verbatim>\<open>unit\<close> is
  missing, and the database, the sizes of the product included, stays as it was. When
  all four are present, the packaging is not the empty string and price and count are
  not zero, the size is appended to the sizes of the product, with \<^verbatim>\<open>links\<close> and
  \<^verbatim>\<open>imageUrls\<close> empty where they are missing, and the product is stored so.
\<close>

theorem Product_addSize_validation:
  assumes p: "Model_findById productId (ProductModel s) = Some (productId, product)"
    and p': "product' = product\<lparr>p_sizes := p_sizes product @
        [\<lparr>s_packaging = packaging, s_price = price, s_count = count, s_unit = unit,
          s_links = (case in_links sz of None \<Rightarrow> [] | Some ls \<Rightarrow> ls),
          s_imageUrls = (case in_imageUrls sz of None \<Rightarrow> [] | Some us \<Rightarrow> us)\<rparr>]\<rparr>"
  shows "(in_packaging sz = None \<or> in_price sz = None \<or> in_count sz = None \<or> in_unit sz = None
            \<longrightarrow> Product_addSize productId sz s = (Inl IncompleteSizeDetails, s)) \<and>
         (in_packaging sz = Some packaging \<and> in_price sz = Some price \<and>
          in_count sz = Some count \<and> in_unit sz = Some unit \<and>
          packaging \<noteq> [] \<and> price \<noteq> 0 \<and> count \<noteq> 0
            \<longrightarrow> Product_addSize productId sz s =
                  (Inr (productId, product'),
                   s\<lparr>ProductModel := Model_save productId product' (ProductModel s)\<rparr>) \<and>
                Model_findById productId (Model_save productId product' (ProductModel s)) =
                  Some (productId, product'))"
proof -
  have missing: "in_packaging sz = None \<or> in_price sz = None \<or> in_count sz = None \<or>
      in_unit sz = None \<Longrightarrow> Product_addSize productId sz s = (Inl IncompleteSizeDetails, s)"
    by (rule Product_addSize_incomplete [OF p])
       (auto simp: not_string_def not_number_def not_unit_def)
  have pin: "productId \<in> fst ` set (ProductModel s)"
    using Model_findById_Some [OF p] by force
  have stored: "Model_findById productId (Model_save productId product' (ProductModel s)) =
      Some (productId, product')"
    using pin by (simp add: Model_findById_save)
  have complete: "in_packaging sz = Some packaging \<and> in_price sz = Some price \<and>
      in_count sz = Some count \<and> in_unit sz = Some unit \<and>
      packaging \<noteq> [] \<and> price \<noteq> 0 \<and> count \<noteq> 0 \<Longrightarrow>
      Product_addSize productId sz s =
        (Inr (productId, product'),
         s\<lparr>ProductModel := Model_save productId product' (ProductModel s)\<rparr>)"
    using p p'
    by (simp add: Product_addSize_def not_string_def not_number_def not_unit_def
        nullish_empty_def Let_def)
  show ?thesis using missing complete stored by blast
qed

theorem Product_addSize_validation_witness:
  "Model_findById 0 [(0::nat, \<lparr>p_brand = ''Acme'', p_flavor = ''Beef'', p_species = Dog, p_lifeStage = Young,
              p_foodType = Dry, p_ingredients = [], p_sizes = [], p_feedingChart = []\<rparr>)] = Some (0, \<lparr>p_brand = ''Acme'', p_flavor = ''Beef'', p_species = Dog, p_lifeStage = Young,
              p_foodType = Dry, p_ingredients = [], p_sizes = [], p_feedingChart = []\<rparr>) \<and>
   Product_addSize 0
     \<lparr>in_packaging = Some ''bag'', in_price = None, in_count = Some 1, in_unit = Some Lb,
      in_links = None, in_imageUrls = None\<rparr>
     \<lparr>ProductModel =
        [(0, \<lparr>p_brand = ''Acme'', p_flavor = ''Beef'', p_species = Dog, p_lifeStage = Young,
              p_foodType = Dry, p_ingredients = [], p_sizes = [], p_feedingChart = []\<rparr>)],
      IngredientModel = [], next_oid = 1, started = []\<rparr> =
   (Inl IncompleteSizeDetails,
    \<lparr>ProductModel =
        [(0, \<lparr>p_brand = ''Acme'', p_flavor = ''Beef'', p_species = Dog, p_lifeStage = Young,
              p_foodType = Dry, p_ingredients = [], p_sizes = [], p_feedingChart = []\<rparr>)],
      IngredientModel = [], next_oid = 1, started = []\<rparr>) \<and>
   Product_addSize 0
     \<lparr>in_packaging = Some ''bag'', in_price = Some 12, in_count = Some 5, in_unit = Some Lb,
      in_links = None, in_imageUrls = None\<rparr>
     \<lparr>ProductModel =
        [(0, \<lparr>p_brand = ''Acme'', p_flavor = ''Beef'', p_species = Dog, p_lifeStage = Young,
              p_foodType = Dry, p_ingredients = [], p_sizes = [], p_feedingChart = []\<rparr>)],
      IngredientModel = [], next_oid = 1, started = []\<rparr> =
   (Inr (0, \<lparr>p_brand = ''Acme'', p_flavor = ''Beef'', p_species = Dog, p_lifeStage = Young,
            p_foodType = Dry, p_ingredients = [],
            p_sizes = [\<lparr>s_packaging = ''bag'', s_price = 12, s_count = 5, s_unit = Lb,
                        s_links = [], s_imageUrls = []\<rparr>],
            p_feedingChart = []\<rparr>),
    \<lparr>ProductModel =
       [(0, \<lparr>p_brand = ''Acme'', p_flavor = ''Beef'', p_species = Dog, p_lifeStage = Young,
            p_foodType = Dry, p_ingredients = [],
            p_sizes = [\<lparr>s_packaging = ''bag'', s_price = 12, s_count = 5, s_unit = Lb,
                        s_links = [], s_imageUrls = []\<rparr>],
            p_feedingChart = []\<rparr>)],
     IngredientModel = [], next_oid = 1, started = []\<rparr>)"
proof -
  let ?p = "\<lparr>p_brand = ''Acme'', p_flavor = ''Beef'', p_species = Dog, p_lifeStage = Young,
              p_foodType = Dry, p_ingredients = [], p_sizes = [], p_feedingChart = []\<rparr>"
  let ?s = "\<lparr>ProductModel = [(0, ?p)], IngredientModel = [], next_oid = 1, started = []\<rparr>"
  have p: "Model_findById 0 (ProductModel ?s) = Some (0, ?p)"
    by (simp add: Model_findById_def)
  have missing: "Product_addSize 0
     \<lparr>in_packaging = Some ''bag'', in_price = None, in_count = Some 1, in_unit = Some Lb,
      in_links = None, in_imageUrls = None\<rparr> ?s = (Inl IncompleteSizeDetails, ?s)"
    using Product_addSize_validation [OF p refl,
        where sz = "\<lparr>in_packaging = Some ''bag'', in_price = None, in_count = Some 1,
          in_unit = Some Lb, in_links = None, in_imageUrls = None\<rparr>"]
    by simp
  have complete: "Product_addSize 0
     \<lparr>in_packaging = Some ''bag'', in_price = Some 12, in_count = Some 5, in_unit = Some Lb,
      in_links = None, in_imageUrls = None\<rparr> ?s =
     (Inr (0, ?p\<lparr>p_sizes := [\<lparr>s_packaging = ''bag'', s_price = 12, s_count = 5, s_unit = Lb,
                        s_links = [], s_imageUrls = []\<rparr>]\<rparr>),
      ?s\<lparr>ProductModel := [(0, ?p\<lparr>p_sizes := [\<lparr>s_packaging = ''bag'', s_price = 12,
            s_count = 5, s_unit = Lb, s_links = [], s_imageUrls = []\<rparr>]\<rparr>)]\<rparr>)"
    using Product_addSize_validation [OF p refl,
        where sz = "\<lparr>in_packaging = Some ''bag'', in_price = Some 12, in_count = Some 5,
          in_unit = Some Lb, in_links = None, in_imageUrls = None\<rparr>"
          and packaging = "''bag''" and price = 12 and count = 5 and unit = Lb]
    by simp
  show ?thesis using p missing complete by simp
qed

text \<open>
  The claim as stated, that the size is appended whenever the four fields are present,
  fails at the price 0: all four fields are present, and the call fails and appends
  nothing.
\<close>

theorem Product_addSize_price_zero_counterexample:
  "Product_addSize 0
     \<lparr>in_packaging = Some ''bag'', in_price = Some 0, in_count = Some 1, in_unit = Some Lb,
      in_links = Some [], in_imageUrls = Some []\<rparr>
     \<lparr>ProductModel =
        [(0, \<lparr>p_brand = ''Acme'', p_flavor = ''Beef'', p_species = Dog, p_lifeStage = Young,
              p_foodType = Dry, p_ingredients = [], p_sizes = [], p_feedingChart = []\<rparr>)],
      IngredientModel = [], next_oid = 1, started = []\<rparr>
   = (Inl IncompleteSizeDetails,
      \<lparr>ProductModel =
        [(0, \<lparr>p_brand = ''Acme'', p_flavor = ''Beef'', p_species = Dog, p_lifeStage = Young,
              p_foodType = Dry, p_ingredients = [], p_sizes = [], p_feedingChart = []\<rparr>)],
      IngredientModel = [], next_oid = 1, started = []\<rparr>)"
  by (simp add: Product_addSize_def Model_findById_def not_string_def not_number_def not_unit_def)

text \<open>
  Claim C10. For a stored product, a size whose price is 0, whose count is 0 or whose
  packaging is the empty string fails with \<open>IncompleteSizeDetails\<close>, whatever the other
  fields are, and the database stays as it was.
\<close>

theorem Product_addSize_falsy_fields:
  assumes p: "Model_findById productId (ProductModel s) = Some (productId, product)"
    and falsy: "in_price sz = Some 0 \<or> in_count sz = Some 0 \<or> in_packaging sz = Some []"
  shows "Product_addSize productId sz s = (Inl IncompleteSizeDetails, s)"
  by (rule Product_addSize_incomplete [OF p])
     (use falsy in \<open>auto simp: not_string_def not_number_def\<close>)

theorem Product_addSize_falsy_fields_witness:
  "Model_findById 0 [(0::nat, \<lparr>p_brand = ''Acme'', p_flavor = ''Beef'', p_species = Dog, p_lifeStage = Young,
              p_foodType = Dry, p_ingredients = [], p_sizes = [], p_feedingChart = []\<rparr>)] = Some (0, \<lparr>p_brand = ''Acme'', p_flavor = ''Beef'', p_species = Dog, p_lifeStage = Young,
              p_foodType = Dry, p_ingredients = [], p_sizes = [], p_feedingChart = []\<rparr>) \<and>
   Product_addSize 0
     \<lparr>in_packaging = Some ''bag'', in_price = Some 12, in_count = Some 0, in_unit = Some Can,
      in_links = Some [''https://example.com''], in_imageUrls = None\<rparr>
     \<lparr>ProductModel =
        [(0, \<lparr>p_brand = ''Acme'', p_flavor = ''Beef'', p_species = Dog, p_lifeStage = Young,
              p_foodType = Dry, p_ingredients = [], p_sizes = [], p_feedingChart = []\<rparr>)],
      IngredientModel = [], next_oid = 1, started = []\<rparr> =
   (Inl IncompleteSizeDetails,
    \<lparr>ProductModel =
        [(0, \<lparr>p_brand = ''Acme'', p_flavor = ''Beef'', p_species = Dog, p_lifeStage = Young,
              p_foodType = Dry, p_ingredients = [], p_sizes = [], p_feedingChart = []\<rparr>)],
      IngredientModel = [], next_oid = 1, started = []\<rparr>)"
proof -
  let ?s = "\<lparr>ProductModel =
        [(0, \<lparr>p_brand = ''Acme'', p_flavor = ''Beef'', p_species = Dog, p_lifeStage = Young,
              p_foodType = Dry, p_ingredients = [], p_sizes = [], p_feedingChart = []\<rparr>)],
      IngredientModel = [], next_oid = 1, started = []\<rparr>"
  have p: "Model_findById 0 (ProductModel ?s) = Some (0, \<lparr>p_brand = ''Acme'', p_flavor = ''Beef'', p_species = Dog, p_lifeStage = Young,
              p_foodType = Dry, p_ingredients = [], p_sizes = [], p_feedingChart = []\<rparr>)"
    by (simp add: Model_findById_def)
  show ?thesis
    using Product_addSize_falsy_fields [OF p,
        where sz = "\<lparr>in_packaging = Some ''bag'', in_price = Some 12, in_count = Some 0,
          in_unit = Some Can, in_links = Some [''https://example.com''], in_imageUrls = None\<rparr>"] p
    by simp
qed

end
